theory Spec2Isabelle
  imports Complex_Main
begin

section \<open>Numeric conventions\<close>

text \<open>
  The renderer computes with C++ \<^verbatim>\<open>double\<close>/\<^verbatim>\<open>float\<close>/\<^verbatim>\<open>qreal\<close> and \<^verbatim>\<open>int\<close>.
  Here a floating-point number is a \<^typ>\<open>real\<close> (exact arithmetic, no rounding error) and an
  \<^verbatim>\<open>int\<close> is an unbounded \<^typ>\<open>int\<close>. The transfer to the C++ code therefore holds on inputs
  for which no intermediate \<^verbatim>\<open>int\<close> leaves the 32-bit range and the floating-point operations
  are exact (powers of two, small dyadic fractions, small integers); the concrete inputs
  evaluated below are of this kind.
\<close>

text \<open>A C++ cast \<^verbatim>\<open>(int)d\<close> of a floating-point value: truncation towards zero.\<close>

definition truncToInt :: "real \<Rightarrow> int" where
  "truncToInt d = (if 0 \<le> d then \<lfloor>d\<rfloor> else \<lceil>d\<rceil>)"

text \<open>C++ \<^verbatim>\<open>int / int\<close>: the quotient truncated towards zero.\<close>

definition cdiv :: "int \<Rightarrow> int \<Rightarrow> int" where
  "cdiv a b = sgn a * sgn b * (\<bar>a\<bar> div \<bar>b\<bar>)"

text \<open>\<^verbatim>\<open>std::clamp(v, lo, hi)\<close> is \<^verbatim>\<open>(v < lo) ? lo : (hi < v) ? hi : v\<close>.\<close>

definition std_clamp :: "int \<Rightarrow> int \<Rightarrow> int \<Rightarrow> int" where
  "std_clamp v lo hi = (if v < lo then lo else if hi < v then hi else v)"

section \<open>Visible tiles (src/unnamed/part_004)\<close>

text \<open>\<^verbatim>\<open>TileCoord\<close>: the aggregate \<^verbatim>\<open>{ zoom, x, y }\<close>.\<close>

record TileCoord =
  zoom :: int
  tx :: int
  ty :: int

text \<open>
  \<^verbatim>\<open>calcViewportSizeNorm\<close> (lines 23-31). In IEEE arithmetic \<^verbatim>\<open>1.0 / 0.0\<close> is \<open>+\<infinity>\<close> and
  \<^verbatim>\<open>qMin(1.0, +\<infinity>)\<close> is \<open>1\<close>, whereas \<open>1 / 0 = 0\<close> in HOL: the zero aspect is written out.
\<close>

definition calcViewportSizeNorm :: "real \<Rightarrow> real \<Rightarrow> real \<times> real" where
  "calcViewportSizeNorm vpZoomLevel viewportAspect =
     (let temp = 1 / (2 powr vpZoomLevel)
      in (temp * min 1 (if viewportAspect = 0 then 1 else 1 / viewportAspect),
          temp * max 1 viewportAspect))"

text \<open>
  \<^verbatim>\<open>Bach::calcVisibleTiles\<close> (lines 33-66). \<^verbatim>\<open>1 << mapZoomLevel\<close> is an \<^verbatim>\<open>int\<close> shift, defined for
  \<open>mapZoomLevel \<le> 30\<close>; there it is \<open>2 ^ mapZoomLevel\<close>. The two nested loops append the tiles
  row by row.
\<close>

definition clampToGrid :: "int \<Rightarrow> int \<Rightarrow> int" where
  "clampToGrid tileCount i = std_clamp i 0 (tileCount - 1)"

definition calcVisibleTiles :: "real \<Rightarrow> real \<Rightarrow> real \<Rightarrow> real \<Rightarrow> int \<Rightarrow> TileCoord list" where
  "calcVisibleTiles vpX vpY vpAspect vpZoomLevel mapZoomLevel0 =
     (let mapZoomLevel = max 0 mapZoomLevel0;
          (vpWidthNorm, vpHeightNorm) = calcViewportSizeNorm vpZoomLevel vpAspect;
          vpMinNormX = vpX - (vpWidthNorm / 2);
          vpMaxNormX = vpX + (vpWidthNorm / 2);
          vpMinNormY = vpY - (vpHeightNorm / 2);
          vpMaxNormY = vpY + (vpHeightNorm / 2);
          tileCount = (2::int) ^ nat mapZoomLevel;
          leftmostTileX = clampToGrid tileCount \<lfloor>vpMinNormX * real_of_int tileCount\<rfloor>;
          rightmostTileX = clampToGrid tileCount \<lceil>vpMaxNormX * real_of_int tileCount\<rceil>;
          topmostTileY = clampToGrid tileCount \<lfloor>vpMinNormY * real_of_int tileCount\<rfloor>;
          bottommostTileY = clampToGrid tileCount \<lceil>vpMaxNormY * real_of_int tileCount\<rceil>
      in concat (map (\<lambda>y. map (\<lambda>x. \<lparr>zoom = mapZoomLevel, tx = x, ty = y\<rparr>)
                                  [leftmostTileX..rightmostTileX])
                     [topmostTileY..bottommostTileY]))"

text \<open>
  The specification's reading of "visible": the tile \<open>(z, x, y)\<close> of the \<open>2^z \<times> 2^z\<close> grid
  covers the unit square \<open>[x/2^z, (x+1)/2^z] \<times> [y/2^z, (y+1)/2^z]\<close> of the normalised world,
  and it is visible when this square meets the viewport rectangle of half-extents
  \<open>e_w = 2^{-zv} \<cdot> min(1, 1/a) / 2\<close> and \<open>e_h = 2^{-zv} \<cdot> max(1, a) / 2\<close> around \<open>(vpX, vpY)\<close>.
\<close>

definition tileMeetsViewport :: "real \<Rightarrow> real \<Rightarrow> real \<Rightarrow> real \<Rightarrow> TileCoord \<Rightarrow> bool" where
  "tileMeetsViewport vpX vpY a zv t =
     (let n = (2::real) ^ nat (zoom t);
          e_w = (1 / (2 powr zv)) * min 1 (1 / a) / 2;
          e_h = (1 / (2 powr zv)) * max 1 a / 2
      in 0 \<le> tx t \<and> real_of_int (tx t) < n \<and> 0 \<le> ty t \<and> real_of_int (ty t) < n \<and>
         real_of_int (tx t) / n \<le> vpX + e_w \<and> vpX - e_w \<le> (real_of_int (tx t) + 1) / n \<and>
         real_of_int (ty t) / n \<le> vpY + e_h \<and> vpY - e_h \<le> (real_of_int (ty t) + 1) / n)"

section \<open>Qt value types used by the renderer\<close>

text \<open>
  The renderer is written against Qt. Qt's value types are modelled by what the renderer reads
  and writes of them; the Qt operations whose results depend on the font engine, on the path
  geometry or on Qt's variant conversions are not part of the repository and are taken as
  parameters, collected in the record \<open>Qt\<close> below, so that every theorem holds for whatever
  these operations compute.
\<close>

type_synonym QString = string
type_synonym QPoint = "int \<times> int"
type_synonym QPointF = "real \<times> real"

text \<open>\<^verbatim>\<open>QRect(x, y, w, h)\<close> and \<^verbatim>\<open>QRect(QPoint, QSize)\<close>: position and size.\<close>

record QRect =
  rx :: int
  ry :: int
  rw :: int
  rh :: int

record QRectF =
  fx :: real
  fy :: real
  fw :: real
  fh :: real

definition QRect_translate :: "int \<Rightarrow> int \<Rightarrow> QRect \<Rightarrow> QRect" where
  "QRect_translate dx dy r = r\<lparr>rx := rx r + dx, ry := ry r + dy\<rparr>"

definition QRectF_translate :: "QPointF \<Rightarrow> QRectF \<Rightarrow> QRectF" where
  "QRectF_translate p r = r\<lparr>fx := fx r + fst p, fy := fy r + snd p\<rparr>"

text \<open>The implicit conversions \<^verbatim>\<open>QRect \<rightarrow> QRectF\<close> and \<^verbatim>\<open>QPoint \<rightarrow> QPointF\<close>.\<close>

definition toRectF :: "QRect \<Rightarrow> QRectF" where
  "toRectF r = \<lparr>fx = real_of_int (rx r), fy = real_of_int (ry r),
               fw = real_of_int (rw r), fh = real_of_int (rh r)\<rparr>"

definition toPointF :: "QPoint \<Rightarrow> QPointF" where
  "toPointF p = (real_of_int (fst p), real_of_int (snd p))"

text \<open>\<^verbatim>\<open>qRound(double d)\<close> of Qt 6: \<^verbatim>\<open>d >= 0.0 ? int(d + 0.5) : int(d - 0.5)\<close>.\<close>

definition qRound :: "real \<Rightarrow> int" where
  "qRound d = (if 0 \<le> d then truncToInt (d + 1 / 2) else truncToInt (d - 1 / 2))"

text \<open>
  \<^verbatim>\<open>QFont\<close>: the families and the pixel size. A font constructed from its families has its
  size in points, and \<^verbatim>\<open>pixelSize()\<close> is then \<open>-1\<close>; \<^verbatim>\<open>setPixelSize\<close> ignores a size
  that is not positive.
\<close>

record QFont =
  families :: "QString list"
  pixelSize :: int

definition QFont_new :: "QString list \<Rightarrow> QFont" where
  "QFont_new fams = \<lparr>families = fams, pixelSize = - 1\<rparr>"

definition setPixelSize :: "int \<Rightarrow> QFont \<Rightarrow> QFont" where
  "setPixelSize n f = (if n \<le> 0 then f else f\<lparr>pixelSize := n\<rparr>)"

text \<open>\<^verbatim>\<open>QPainterPath\<close>: the sequence of its elements.\<close>

datatype elementType = MoveToElement | LineToElement | CurveToElement | CurveToDataElement

type_synonym QPainterPath = "(elementType \<times> QPointF) list"

definition QPainterPath_translate :: "QPointF \<Rightarrow> QPainterPath \<Rightarrow> QPainterPath" where
  "QPainterPath_translate d path =
     map (\<lambda>(e, p). (e, (fst p + fst d, snd p + snd d))) path"

text \<open>
  \<^verbatim>\<open>QTransform\<close>, restricted to affine transforms (the renderer builds its transforms from
  translations and scalings): \<open>x' = m11 x + m21 y + dx\<close>, \<open>y' = m12 x + m22 y + dy\<close>.
  \<^verbatim>\<open>scale(sx, sy)\<close> multiplies the first row by \<open>sx\<close> and the second by \<open>sy\<close>;
  \<^verbatim>\<open>map(QPoint)\<close> rounds with \<^verbatim>\<open>qRound\<close>; \<^verbatim>\<open>map(QPainterPath)\<close> maps every element.
\<close>

record QTransform =
  m11 :: real
  m12 :: real
  m21 :: real
  m22 :: real
  m31 :: real
  m32 :: real

definition QTransform_identity :: QTransform where
  "QTransform_identity = \<lparr>m11 = 1, m12 = 0, m21 = 0, m22 = 1, m31 = 0, m32 = 0\<rparr>"

definition QTransform_scale :: "real \<Rightarrow> real \<Rightarrow> QTransform \<Rightarrow> QTransform" where
  "QTransform_scale sx sy t =
     t\<lparr>m11 := m11 t * sx, m12 := m12 t * sx, m21 := m21 t * sy, m22 := m22 t * sy\<rparr>"

definition QTransform_mapF :: "QTransform \<Rightarrow> QPointF \<Rightarrow> QPointF" where
  "QTransform_mapF t p =
     (m11 t * fst p + m21 t * snd p + m31 t, m12 t * fst p + m22 t * snd p + m32 t)"

definition QTransform_map :: "QTransform \<Rightarrow> QPoint \<Rightarrow> QPoint" where
  "QTransform_map t p =
     (let q = QTransform_mapF t (toPointF p) in (qRound (fst q), qRound (snd q)))"

definition QTransform_mapPath :: "QTransform \<Rightarrow> QPainterPath \<Rightarrow> QPainterPath" where
  "QTransform_mapPath t path = map (\<lambda>(e, p). (e, QTransform_mapF t p)) path"

text \<open>\<^verbatim>\<open>QBrush\<close> and \<^verbatim>\<open>QPen\<close> as far as the renderer sets them, over a colour type \<open>'c\<close>.\<close>

datatype 'c QBrush = NoBrush | SolidBrush 'c

datatype 'c QPen = NoPen | SolidPen 'c int

text \<open>
  \<^verbatim>\<open>QPainter\<close>: the state the renderer sets, and the paths drawn so far, each with the brush
  and the pen it was drawn with.
\<close>

record 'c QPainter =
  painterFont :: QFont
  painterBrush :: "'c QBrush"
  painterPen :: "'c QPen"
  painterOpacity :: real
  painterAntialiasing :: bool
  painterDrawn :: "(QPainterPath \<times> 'c QBrush \<times> 'c QPen) list"

section \<open>Features, layer styles and the Qt operations\<close>

text \<open>
  A feature carries its metadata (\<^verbatim>\<open>featureMetaData\<close>, a \<^verbatim>\<open>QMap<QString, QVariant>\<close>) and its
  geometry. \<open>'v\<close> is \<^verbatim>\<open>QVariant\<close>.
\<close>

datatype featureType = PolygonType | LineType | PointType | UnknownType

record 'v AbstractLayerFeature =
  featureKind :: featureType
  featureMetaData :: "QString \<rightharpoonup> 'v"

record 'v PointFeature = "'v AbstractLayerFeature" +
  points :: "QPoint list"

record 'v LineFeature = "'v AbstractLayerFeature" +
  line :: QPainterPath

record 'v PolygonFeature = "'v AbstractLayerFeature" +
  polygon :: QPainterPath

text \<open>
  The layer styles (\<^verbatim>\<open>Layerstyle.h\<close> is not among the sources): the zoom getters the renderer
  calls, each returning a \<^verbatim>\<open>QVariant\<close>, and the members it reads.
\<close>

record 'v SymbolLayerStyle =
  getTextColorAtZoom :: "int \<Rightarrow> 'v"
  getTextSizeAtZoom :: "int \<Rightarrow> 'v"
  getTextOpacityAtZoom :: "int \<Rightarrow> 'v"
  getTextMaxAngleAtZoom :: "int \<Rightarrow> 'v"
  getTextLetterSpacingAtZoom :: "int \<Rightarrow> 'v"
  m_textField :: 'v
  m_textFont :: "QString list"
  m_textHaloWidth :: 'v
  m_textHaloColor :: 'v
  m_textMaxWidth :: 'v

record 'v FillLayerStyle =
  getFillColorAtZoom :: "int \<Rightarrow> 'v"
  getFillOpacityAtZoom :: "int \<Rightarrow> 'v"
  m_antialias :: bool

text \<open>
  The operations of Qt, and the expression evaluator of the repository
  (\<^verbatim>\<open>Evaluator::resolveExpression\<close>, of which only the header is among the sources), as
  parameters. \<open>'v\<close> is \<^verbatim>\<open>QVariant\<close>, \<open>'c\<close> is \<^verbatim>\<open>QColor\<close>.
  \<^item> \<open>isJsonArray v\<close>: \<^verbatim>\<open>v.typeId() == QMetaType::Type::QJsonArray\<close>;
    \<open>isNullOrInvalid v\<close>: \<^verbatim>\<open>v.isNull() || !v.isValid()\<close>;
    \<open>toInt\<close>, \<open>toFloat\<close>, \<open>toColor\<close>, \<open>toQString\<close>: \<^verbatim>\<open>value<int>()\<close>/\<^verbatim>\<open>toInt()\<close>,
    \<^verbatim>\<open>value<float>()\<close>, \<^verbatim>\<open>value<QColor>()\<close>, \<^verbatim>\<open>toString()\<close>.
  \<^item> \<open>resolveExpression v f mapZoom vpZoom\<close>: the evaluator on \<^verbatim>\<open>v.toJsonArray()\<close>.
  \<^item> \<open>upperCase c\<close>: the upper-case mapping of one character; \<^verbatim>\<open>QString::toUpper\<close> maps the
    characters one by one (a character may map to several).
  \<^item> \<open>horizontalAdvance\<close>, \<open>horizontalAdvanceChar\<close>, \<open>fontHeight\<close>: \<^verbatim>\<open>QFontMetrics\<close> of a
    font; \<open>fontHeightF\<close>: \<^verbatim>\<open>QFontMetricsF::height\<close>.
  \<^item> \<open>addText f s\<close>: the elements \<^verbatim>\<open>QPainterPath::addText({}, f, s)\<close> adds;
    \<open>boundingRect\<close>, \<open>pathLength\<close>, \<open>percentAtLength\<close>, \<open>pointAtPercent\<close>,
    \<open>angleAtPercent\<close>: the measurements of a \<^verbatim>\<open>QPainterPath\<close>; \<open>toRect\<close>: \<^verbatim>\<open>QRectF::toRect\<close>.
  \<^item> \<open>intersects r r'\<close>: \<^verbatim>\<open>r.intersects(r')\<close>; \<open>united r r'\<close>: \<^verbatim>\<open>r.united(r')\<close>.
  \<^item> \<open>alphaF\<close>, \<open>setAlphaF\<close>: of \<^verbatim>\<open>QColor\<close>.
\<close>

record ('v, 'c) Qt =
  isJsonArray :: "'v \<Rightarrow> bool"
  isNullOrInvalid :: "'v \<Rightarrow> bool"
  toInt :: "'v \<Rightarrow> int"
  toFloat :: "'v \<Rightarrow> real"
  toColor :: "'v \<Rightarrow> 'c"
  toQString :: "'v \<Rightarrow> QString"
  resolveExpression :: "'v \<Rightarrow> 'v AbstractLayerFeature \<Rightarrow> int \<Rightarrow> real \<Rightarrow> 'v"
  upperCase :: "char \<Rightarrow> QString"
  horizontalAdvance :: "QFont \<Rightarrow> QString \<Rightarrow> int"
  horizontalAdvanceChar :: "QFont \<Rightarrow> char \<Rightarrow> int"
  fontHeight :: "QFont \<Rightarrow> int"
  fontHeightF :: "QFont \<Rightarrow> real"
  addText :: "QFont \<Rightarrow> QString \<Rightarrow> QPainterPath"
  boundingRect :: "QPainterPath \<Rightarrow> QRectF"
  toRect :: "QRectF \<Rightarrow> QRect"
  pathLength :: "QPainterPath \<Rightarrow> real"
  percentAtLength :: "QPainterPath \<Rightarrow> real \<Rightarrow> real"
  pointAtPercent :: "QPainterPath \<Rightarrow> real \<Rightarrow> QPointF"
  angleAtPercent :: "QPainterPath \<Rightarrow> real \<Rightarrow> real"
  intersects :: "QRect \<Rightarrow> QRect \<Rightarrow> bool"
  united :: "QRect \<Rightarrow> QRect \<Rightarrow> QRect"
  alphaF :: "'c \<Rightarrow> real"
  setAlphaF :: "real \<Rightarrow> 'c \<Rightarrow> 'c"

definition toUpper :: "('v, 'c) Qt \<Rightarrow> QString \<Rightarrow> QString" where
  "toUpper qt s = concat (map (upperCase qt) s)"

section \<open>Style getters (src/lib/Rendering_Text.cpp, lines 19-192)\<close>

text \<open>
  Each getter reads the property at the map zoom, resolves it when it is an expression
  (a JSON array) and converts the variant.
\<close>

definition getTextColor ::
  "('v, 'c) Qt \<Rightarrow> 'v SymbolLayerStyle \<Rightarrow> 'v AbstractLayerFeature \<Rightarrow> int \<Rightarrow> real \<Rightarrow> 'c" where
  "getTextColor qt layerStyle feature mapZoom vpZoom =
     (let color = getTextColorAtZoom layerStyle mapZoom;
          color = (if isJsonArray qt color
                   then resolveExpression qt color feature mapZoom vpZoom else color)
      in toColor qt color)"

definition getTextSize ::
  "('v, 'c) Qt \<Rightarrow> 'v SymbolLayerStyle \<Rightarrow> 'v AbstractLayerFeature \<Rightarrow> int \<Rightarrow> real \<Rightarrow> int" where
  "getTextSize qt layerStyle feature mapZoom vpZoom =
     (let size = getTextSizeAtZoom layerStyle mapZoom;
          size = (if isJsonArray qt size
                  then resolveExpression qt size feature mapZoom vpZoom else size)
      in toInt qt size)"

definition getTextOpacity ::
  "('v, 'c) Qt \<Rightarrow> 'v SymbolLayerStyle \<Rightarrow> 'v AbstractLayerFeature \<Rightarrow> int \<Rightarrow> real \<Rightarrow> real" where
  "getTextOpacity qt layerStyle feature mapZoom vpZoom =
     (let opacity = getTextOpacityAtZoom layerStyle mapZoom;
          opacity = (if isJsonArray qt opacity
                     then resolveExpression qt opacity feature mapZoom vpZoom else opacity)
      in toFloat qt opacity)"

text \<open>
  \<^verbatim>\<open>getTextContent\<close>: empty for a null or invalid text field; the resolved expression as a
  string; otherwise the text field names a metadata key (braces removed), and the content is
  that metadata value, or empty when the key is absent.
\<close>

definition getTextContent ::
  "('v, 'c) Qt \<Rightarrow> 'v SymbolLayerStyle \<Rightarrow> 'v AbstractLayerFeature \<Rightarrow> int \<Rightarrow> real \<Rightarrow> QString" where
  "getTextContent qt layerStyle feature mapZoom vpZoom =
     (let textVariant = m_textField layerStyle
      in if isNullOrInvalid qt textVariant then []
         else if isJsonArray qt textVariant
         then toQString qt (resolveExpression qt textVariant feature mapZoom vpZoom)
         else (let textFieldKey = toQString qt textVariant;
                   textFieldKey = filter (\<lambda>c. c \<noteq> CHR ''{'') textFieldKey;
                   textFieldKey = filter (\<lambda>c. c \<noteq> CHR ''}'') textFieldKey
               in case featureMetaData feature textFieldKey of
                    None \<Rightarrow> []
                  | Some v \<Rightarrow> toQString qt v))"

definition getTextMaxAngle ::
  "('v, 'c) Qt \<Rightarrow> 'v SymbolLayerStyle \<Rightarrow> 'v AbstractLayerFeature \<Rightarrow> int \<Rightarrow> real \<Rightarrow> int" where
  "getTextMaxAngle qt layerStyle feature mapZoom vpZoom =
     (let angle = getTextMaxAngleAtZoom layerStyle mapZoom;
          angle = (if isJsonArray qt angle
                   then resolveExpression qt angle feature mapZoom vpZoom else angle)
      in toInt qt angle)"

definition getTextLetterSpacing ::
  "('v, 'c) Qt \<Rightarrow> 'v SymbolLayerStyle \<Rightarrow> 'v AbstractLayerFeature \<Rightarrow> int \<Rightarrow> real \<Rightarrow> int \<Rightarrow> real" where
  "getTextLetterSpacing qt layerStyle feature mapZoom vpZoom fontSize =
     (let spacing = getTextLetterSpacingAtZoom layerStyle mapZoom;
          spacing = (if isJsonArray qt spacing
                     then resolveExpression qt spacing feature mapZoom vpZoom else spacing);
          spacingValue = toFloat qt spacing * real_of_int fontSize
      in spacingValue)"

section \<open>Collision test and word wrap (src/lib/Rendering_Text.cpp, lines 204-247)\<close>

text \<open>\<^verbatim>\<open>isOverlapping\<close>: does any rectangle of the list intersect \<open>textRect\<close>?\<close>

fun isOverlapping :: "('v, 'c) Qt \<Rightarrow> QRect \<Rightarrow> QRect list \<Rightarrow> bool" where
  "isOverlapping qt textRect [] = False"
| "isOverlapping qt textRect (rect # rectList) =
     (if intersects qt rect textRect then True else isOverlapping qt textRect rectList)"

text \<open>
  \<^verbatim>\<open>QString::split(" ")\<close>: the parts between the spaces, empty parts kept; the result is
  never empty.
\<close>

fun split_space :: "QString \<Rightarrow> QString list" where
  "split_space [] = [[]]"
| "split_space (c # cs) =
     (if c = CHR '' '' then [] # split_space cs
      else (case split_space cs of [] \<Rightarrow> [[c]] | w # ws \<Rightarrow> (c # w) # ws))"

text \<open>
  The loop of \<^verbatim>\<open>getCorrectedText\<close> over \<^verbatim>\<open>words.sliced(1)\<close>, with \<^verbatim>\<open>currentCluster\<close> and
  \<^verbatim>\<open>wordClusters\<close>, followed by the final \<^verbatim>\<open>wordClusters.append(currentCluster)\<close>.
\<close>

fun getCorrectedText_loop ::
  "(QString \<Rightarrow> int) \<Rightarrow> int \<Rightarrow> QString \<Rightarrow> QString list \<Rightarrow> QString list \<Rightarrow> QString list" where
  "getCorrectedText_loop adv rectWidthInPix currentCluster wordClusters [] =
     wordClusters @ [currentCluster]"
| "getCorrectedText_loop adv rectWidthInPix currentCluster wordClusters (word # words) =
     (if adv (currentCluster @ '' '' @ word) > rectWidthInPix
      then getCorrectedText_loop adv rectWidthInPix word (wordClusters @ [currentCluster]) words
      else getCorrectedText_loop adv rectWidthInPix (currentCluster @ '' '' @ word)
             wordClusters words)"

definition getCorrectedText :: "('v, 'c) Qt \<Rightarrow> QString \<Rightarrow> QFont \<Rightarrow> int \<Rightarrow> QString list" where
  "getCorrectedText qt text font rectWidth =
     (let rectWidthInPix = pixelSize font * rectWidth
      in if horizontalAdvance qt font text \<le> rectWidthInPix then [text]
         else (case split_space text of
                 [] \<Rightarrow> []
               | word0 # words \<Rightarrow>
                   getCorrectedText_loop (horizontalAdvance qt font) rectWidthInPix word0 [] words))"

section \<open>Axis-aligned labels (src/lib/Rendering_Text.cpp, lines 269-553)\<close>

text \<open>
  \<^verbatim>\<open>Bach::vpGlobalText\<close>, in the order of the aggregate the renderer appends: tile origin,
  paths, texts, positions, font, text colour, outline size, outline colour, bounding rectangle.
\<close>

record 'c vpGlobalText =
  gt_tileOrigin :: QPoint
  gt_path :: "QPainterPath list"
  gt_text :: "QString list"
  gt_position :: "QPoint list"
  gt_font :: QFont
  gt_textColor :: 'c
  gt_outlineSize :: int
  gt_outlineColor :: 'c
  gt_boundingRect :: QRect

text \<open>
  \<^verbatim>\<open>processSimpleText\<close>: a label of one line. \<open>globalRect\<close> is its rectangle in world
  (tile-origin-offset) coordinates; the two lists are the reference parameters \<^verbatim>\<open>rects\<close> and
  \<^verbatim>\<open>vpTextList\<close>.
\<close>

definition processSimpleText ::
  "('v, 'c) Qt \<Rightarrow> QString \<Rightarrow> QPoint \<Rightarrow> int \<Rightarrow> 'c \<Rightarrow> QFont \<Rightarrow> 'v PointFeature \<Rightarrow>
   'v SymbolLayerStyle \<Rightarrow> int \<Rightarrow> real \<Rightarrow> int \<Rightarrow> int \<Rightarrow>
   QRect list \<times> 'c vpGlobalText list \<Rightarrow> QRect list \<times> 'c vpGlobalText list" where
  "processSimpleText qt text coordinate outlineSize outlineColor textFont feature layerStyle
       mapZoom vpZoom tileOriginX tileOriginY acc =
     (let (rects, vpTextList) = acc;
          textPath = addText qt textFont text;
          boundingRect0 = toRectF (toRect qt (boundingRect qt textPath));
          boundingRect1 = boundingRect0\<lparr>fw := fw boundingRect0 + real_of_int (2 * outlineSize)\<rparr>;
          boundingRect2 = boundingRect1\<lparr>fh := fh boundingRect1 + real_of_int (2 * outlineSize)\<rparr>;
          textCenteringOffsetX = - fw boundingRect2 / 2;
          textCenteringOffsetY = fh boundingRect2 / 2;
          textPath = QPainterPath_translate (textCenteringOffsetX, textCenteringOffsetY) textPath;
          textPath = QPainterPath_translate (toPointF coordinate) textPath;
          boundingRect3 = QRectF_translate (textCenteringOffsetX, textCenteringOffsetY) boundingRect2;
          boundingRect4 = QRectF_translate (toPointF coordinate) boundingRect3;
          globalRect =
            \<lparr>rx = truncToInt (real_of_int (tileOriginX + fst coordinate) - fw boundingRect4 / 2),
             ry = truncToInt (real_of_int (tileOriginY + snd coordinate) - fh boundingRect4 / 2),
             rw = truncToInt (fw boundingRect4),
             rh = truncToInt (fh boundingRect4)\<rparr>
      in if isOverlapping qt globalRect rects then (rects, vpTextList)
         else (rects @ [globalRect],
               vpTextList @
                 [\<lparr>gt_tileOrigin = (tileOriginX, tileOriginY),
                   gt_path = [textPath],
                   gt_text = [text],
                   gt_position =
                     [(truncToInt (real_of_int (fst coordinate) + textCenteringOffsetX),
                       truncToInt (real_of_int (snd coordinate) + textCenteringOffsetY))],
                   gt_font = textFont,
                   gt_textColor =
                     getTextColor qt layerStyle (AbstractLayerFeature.truncate feature)
                       mapZoom vpZoom,
                   gt_outlineSize = outlineSize,
                   gt_outlineColor = outlineColor,
                   gt_boundingRect = toRect qt boundingRect4\<rparr>]))"

text \<open>
  One iteration of the loop of \<^verbatim>\<open>processCompositeText\<close>: the path and the position of line
  \<open>i\<close> of \<open>n\<close> (the temporary path is cleared after every iteration).
\<close>

definition processCompositeText_line ::
  "('v, 'c) Qt \<Rightarrow> QFont \<Rightarrow> int \<Rightarrow> QPoint \<Rightarrow> nat \<Rightarrow> nat \<Rightarrow> QString \<Rightarrow> QPainterPath \<times> QPoint" where
  "processCompositeText_line qt textFont outlineSize coordinates n i text =
     (let height = fontHeightF qt textFont;
          temp = addText qt textFont text;
          boundingRect0 = toRectF (toRect qt (boundingRect qt temp));
          boundingRect1 = boundingRect0\<lparr>fw := fw boundingRect0 + real_of_int (2 * outlineSize)\<rparr>;
          boundingRect2 = boundingRect1\<lparr>fh := fh boundingRect1 + real_of_int (2 * outlineSize)\<rparr>;
          textCenteringOffsetX = - fw boundingRect2 / 2;
          textCenteringOffsetY = fh boundingRect2 / 2;
          lineOffsetY = textCenteringOffsetY + ((real i - (real n / 2)) * height);
          temp = QPainterPath_translate (textCenteringOffsetX, lineOffsetY) temp;
          temp = QPainterPath_translate (toPointF coordinates) temp
      in (temp,
          (truncToInt (real_of_int (fst coordinates) + textCenteringOffsetX),
           truncToInt (real_of_int (snd coordinates) + textCenteringOffsetY
                       + ((real i - (real n / 2)) * height)))))"

text \<open>A read at an index outside a \<^verbatim>\<open>QList\<close> (\<^verbatim>\<open>at(i)\<close>) aborts the program.\<close>

datatype error = IndexOutOfRange

text \<open>
  \<^verbatim>\<open>processCompositeText\<close>: a label of several lines; its rectangle is the union of the
  rectangles of its lines, starting from \<^verbatim>\<open>paths.at(0)\<close>.
\<close>

definition processCompositeText ::
  "('v, 'c) Qt \<Rightarrow> QString list \<Rightarrow> QPoint \<Rightarrow> int \<Rightarrow> 'c \<Rightarrow> QFont \<Rightarrow> 'v PointFeature \<Rightarrow>
   'v SymbolLayerStyle \<Rightarrow> int \<Rightarrow> real \<Rightarrow> int \<Rightarrow> int \<Rightarrow>
   QRect list \<times> 'c vpGlobalText list \<Rightarrow> error + QRect list \<times> 'c vpGlobalText list" where
  "processCompositeText qt texts coordinates outlineSize outlineColor textFont feature layerStyle
       mapZoom vpZoom tileOriginX tileOriginY acc =
     (let (rects, vpTextList) = acc;
          placed = map (\<lambda>(i, text). processCompositeText_line qt textFont outlineSize coordinates
                                      (length texts) i text)
                       (zip [0..<length texts] texts);
          paths = map fst placed;
          points = map snd placed
      in case paths of
           [] \<Rightarrow> Inl IndexOutOfRange
         | path0 # morePaths \<Rightarrow>
             (let boundingRect0 = toRect qt (boundingRect qt path0);
                  boundingRect1 = foldl (\<lambda>r path. united qt r (toRect qt (boundingRect qt path)))
                                    boundingRect0 morePaths;
                  globalRect =
                    \<lparr>rx = (tileOriginX + fst coordinates) - cdiv (rw boundingRect1) 2,
                     ry = (tileOriginY + snd coordinates) - cdiv (rh boundingRect1) 2,
                     rw = rw boundingRect1,
                     rh = rh boundingRect1\<rparr>
              in if isOverlapping qt globalRect rects then Inr (rects, vpTextList)
                 else Inr (rects @ [globalRect],
                           vpTextList @
                             [\<lparr>gt_tileOrigin = (tileOriginX, tileOriginY),
                               gt_path = paths,
                               gt_text = texts,
                               gt_position = points,
                               gt_font = textFont,
                               gt_textColor =
                                 getTextColor qt layerStyle (AbstractLayerFeature.truncate feature)
                                   mapZoom vpZoom,
                               gt_outlineSize = outlineSize,
                               gt_outlineColor = outlineColor,
                               gt_boundingRect = boundingRect1\<rparr>])))"

text \<open>
  \<^verbatim>\<open>PaintingDetailsPoint\<close>; the painter it points to is passed and returned beside the two
  lists the function updates.
\<close>

record 'v PaintingDetailsPoint =
  pt_layerStyle :: "'v SymbolLayerStyle"
  pt_feature :: "'v PointFeature"
  pt_mapZoom :: int
  pt_vpZoom :: real

text \<open>
  The anchor of a point feature (\<^verbatim>\<open>coordinates\<close> in \<^verbatim>\<open>processSingleTileFeature_Point\<close>):
  \<^verbatim>\<open>points().at(1)\<close> when the feature has more than one point, \<^verbatim>\<open>points().at(0)\<close>
  otherwise.
\<close>

definition anchorCoordinates :: "QPoint list \<Rightarrow> error + QPoint" where
  "anchorCoordinates pts =
     (if length pts > 1 then Inr (pts ! 1)
      else (case pts of [] \<Rightarrow> Inl IndexOutOfRange | p # _ \<Rightarrow> Inr p))"

definition processSingleTileFeature_Point ::
  "('v, 'c) Qt \<Rightarrow> 'v PaintingDetailsPoint \<Rightarrow> int \<Rightarrow> int \<Rightarrow> int \<Rightarrow> bool \<Rightarrow>
   'c QPainter \<times> QRect list \<times> 'c vpGlobalText list \<Rightarrow>
   error + 'c QPainter \<times> QRect list \<times> 'c vpGlobalText list" where
  "processSingleTileFeature_Point qt details tileSize tileOriginX tileOriginY
       forceNoChangeFontType state =
     (let (painter, rects, vpTextList) = state;
          layerStyle = pt_layerStyle details;
          feature = pt_feature details;
          textToDraw = getTextContent qt layerStyle (AbstractLayerFeature.truncate feature)
                         (pt_mapZoom details) (pt_vpZoom details)
      in if textToDraw = [] then Inr (painter, rects, vpTextList)
         else
          (let textFont = (if forceNoChangeFontType then painterFont painter
                           else QFont_new (m_textFont layerStyle));
               textSize = getTextSize qt layerStyle (AbstractLayerFeature.truncate feature)
                            (pt_mapZoom details) (pt_vpZoom details);
               textFont = setPixelSize textSize textFont;
               painter = painter\<lparr>painterBrush := NoBrush\<rparr>;
               painter = painter\<lparr>painterOpacity :=
                           getTextOpacity qt layerStyle (AbstractLayerFeature.truncate feature)
                             (pt_mapZoom details) (pt_vpZoom details)\<rparr>;
               outlineSize = toInt qt (m_textHaloWidth layerStyle);
               outlineColor = toColor qt (m_textHaloColor layerStyle);
               painter = painter\<lparr>painterAntialiasing := True\<rparr>;
               correctedText = getCorrectedText qt textToDraw textFont
                                 (toInt qt (m_textMaxWidth layerStyle))
           in case anchorCoordinates (points feature) of
                Inl e \<Rightarrow> Inl e
              | Inr coordinates \<Rightarrow>
                 (let transform = QTransform_identity;
                      transform = QTransform_scale (1 / 4096) (1 / 4096) transform;
                      transform = QTransform_scale (real_of_int tileSize) (real_of_int tileSize)
                                    transform;
                      newCoordinates = QTransform_map transform coordinates
                  in if fst newCoordinates < 0 \<or> fst newCoordinates > tileSize \<or>
                        snd newCoordinates < 0 \<or> snd newCoordinates > tileSize
                     then Inr (painter, rects, vpTextList)
                     else if length correctedText = 1
                     then (case processSimpleText qt (correctedText ! 0) newCoordinates
                                  outlineSize outlineColor textFont feature layerStyle
                                  (pt_mapZoom details) (pt_vpZoom details)
                                  tileOriginX tileOriginY (rects, vpTextList) of
                             (rects', vpTextList') \<Rightarrow> Inr (painter, rects', vpTextList'))
                     else (case processCompositeText qt correctedText newCoordinates
                                  outlineSize outlineColor textFont feature layerStyle
                                  (pt_mapZoom details) (pt_vpZoom details)
                                  tileOriginX tileOriginY (rects, vpTextList) of
                             Inl e \<Rightarrow> Inl e
                           | Inr (rects', vpTextList') \<Rightarrow> Inr (painter, rects', vpTextList')))))"

text \<open>
  The local variables of \<^verbatim>\<open>processSingleTileFeature_Point\<close>, named: the text content, the
  font, the wrapped lines, and the painter after its set-up.
\<close>

definition pointText :: "('v, 'c) Qt \<Rightarrow> 'v PaintingDetailsPoint \<Rightarrow> QString" where
  "pointText qt details =
     getTextContent qt (pt_layerStyle details) (AbstractLayerFeature.truncate (pt_feature details))
       (pt_mapZoom details) (pt_vpZoom details)"

definition pointFont ::
  "('v, 'c) Qt \<Rightarrow> 'v PaintingDetailsPoint \<Rightarrow> bool \<Rightarrow> 'c QPainter \<Rightarrow> QFont" where
  "pointFont qt details forceNoChangeFontType painter =
     setPixelSize
       (getTextSize qt (pt_layerStyle details) (AbstractLayerFeature.truncate (pt_feature details))
          (pt_mapZoom details) (pt_vpZoom details))
       (if forceNoChangeFontType then painterFont painter
        else QFont_new (m_textFont (pt_layerStyle details)))"

definition pointLines ::
  "('v, 'c) Qt \<Rightarrow> 'v PaintingDetailsPoint \<Rightarrow> bool \<Rightarrow> 'c QPainter \<Rightarrow> QString list" where
  "pointLines qt details forceNoChangeFontType painter =
     getCorrectedText qt (pointText qt details)
       (pointFont qt details forceNoChangeFontType painter)
       (toInt qt (m_textMaxWidth (pt_layerStyle details)))"

definition pointPainter ::
  "('v, 'c) Qt \<Rightarrow> 'v PaintingDetailsPoint \<Rightarrow> 'c QPainter \<Rightarrow> 'c QPainter" where
  "pointPainter qt details painter =
     painter\<lparr>painterBrush := NoBrush,
             painterOpacity :=
               getTextOpacity qt (pt_layerStyle details)
                 (AbstractLayerFeature.truncate (pt_feature details))
                 (pt_mapZoom details) (pt_vpZoom details),
             painterAntialiasing := True\<rparr>"

text \<open>
  The collision invariant of the kept rectangles: no rectangle of the list is intersected by
  a rectangle kept before it (\<^verbatim>\<open>rect.intersects(textRect)\<close> with \<open>rect\<close> the earlier one).
\<close>

fun noOverlap :: "('v, 'c) Qt \<Rightarrow> QRect list \<Rightarrow> bool" where
  "noOverlap qt [] = True"
| "noOverlap qt (r # rs) = (list_all (\<lambda>r'. \<not> intersects qt r r') rs \<and> noOverlap qt rs)"

section \<open>Curved labels (src/lib/Rendering_Text.cpp, lines 562-708)\<close>

definition isTextFlipped :: "real \<Rightarrow> bool" where
  "isTextFlipped angle = (if angle < 270 \<and> angle > 90 then True else False)"

text \<open>
  \<^verbatim>\<open>calctotalTextHorizontalAdvance\<close>: the advances of the words, the letter spacing once per
  character of a word, and the advance of one space between two words.
\<close>

definition calctotalTextHorizontalAdvance ::
  "('v, 'c) Qt \<Rightarrow> QFont \<Rightarrow> QString \<Rightarrow> int \<Rightarrow> int" where
  "calctotalTextHorizontalAdvance qt font text letterSpacing =
     (let splitText = split_space text;
          totalHorizontalAdvance =
            foldl (\<lambda>total word. total + (horizontalAdvance qt font word
                                          + letterSpacing * int (length word)))
                  0 splitText
      in totalHorizontalAdvance
         + ((int (length splitText) - 1) * horizontalAdvance qt font '' ''))"

text \<open>\<^verbatim>\<open>Bach::singleCurvedTextCharacter\<close> and \<^verbatim>\<open>Bach::vpGlobalCurvedText\<close>, in aggregate order.\<close>

record singleCurvedTextCharacter =
  sc_character :: char
  sc_position :: QPointF
  sc_angle :: real

record 'c vpGlobalCurvedText =
  ct_textList :: "singleCurvedTextCharacter list"
  ct_font :: QFont
  ct_textColor :: 'c
  ct_opacity :: real
  ct_tileOrigin :: QPoint
  ct_outlineColor :: 'c
  ct_outlineSize :: int

record 'v PaintingDetailsPointCurved =
  cv_layerStyle :: "'v SymbolLayerStyle"
  cv_feature :: "'v LineFeature"
  cv_mapZoom :: int
  cv_vpZoom :: real
  cv_transformIn :: QTransform

text \<open>
  The character loop of \<^verbatim>\<open>processSingleTileFeature_Point_Curved\<close>. The source has the loop
  twice: over the text from its last character to its first with the rotation
  \<open>-(angle + 180)\<close> when the text is flipped, and from the first to the last with the rotation
  \<open>-angle\<close> otherwise; the bodies agree in everything else. Here \<open>chars\<close> are the characters
  in the order the loop visits them. \<open>None\<close> is the \<^verbatim>\<open>return\<close> inside the loop.
\<close>

fun placeCharacters ::
  "('v, 'c) Qt \<Rightarrow> QPainterPath \<Rightarrow> QFont \<Rightarrow> int \<Rightarrow> real \<Rightarrow> bool \<Rightarrow> QString \<Rightarrow>
   real \<Rightarrow> real \<Rightarrow> real \<Rightarrow> singleCurvedTextCharacter list \<Rightarrow> QRect \<Rightarrow>
   (singleCurvedTextCharacter list \<times> QRect) option" where
  "placeCharacters qt path textFont maxAngle spacing flipText [] len percentage preAngle
       charsVector textRect = Some (charsVector, textRect)"
| "placeCharacters qt path textFont maxAngle spacing flipText (c # chars) len percentage preAngle
       charsVector textRect =
     (let charPosition = pointAtPercent qt path percentage;
          angle = angleAtPercent qt path percentage
      in if \<bar>angle - preAngle\<bar> > real_of_int maxAngle then None
         else
          (let charsVector' = charsVector @
                 [\<lparr>sc_character = c, sc_position = charPosition,
                   sc_angle = (if flipText then - (angle + 180) else - angle)\<rparr>];
               charRect =
                 \<lparr>rx = truncToInt (fst charPosition),
                  ry = truncToInt (snd charPosition
                                   - real_of_int (cdiv (fontHeight qt textFont) 2)),
                  rw = horizontalAdvanceChar qt textFont c,
                  rh = fontHeight qt textFont\<rparr>;
               textRect' = united qt textRect charRect;
               letterSpacing = (if c = CHR '' '' then 0 else spacing);
               len' = len + real_of_int (horizontalAdvanceChar qt textFont c) + letterSpacing;
               percentage' = percentAtLength qt path len'
           in placeCharacters qt path textFont maxAngle spacing flipText chars len' percentage'
                angle charsVector' textRect'))"

text \<open>
  \<^verbatim>\<open>Bach::processSingleTileFeature_Point_Curved\<close>, on the reference parameters \<^verbatim>\<open>rects\<close> and
  \<^verbatim>\<open>vpCurvedTextList\<close>. The float \<^verbatim>\<open>spacing\<close> is passed to the \<^verbatim>\<open>int\<close> parameter of
  \<^verbatim>\<open>calctotalTextHorizontalAdvance\<close>, which truncates it.
\<close>

definition processSingleTileFeature_Point_Curved ::
  "('v, 'c) Qt \<Rightarrow> 'v PaintingDetailsPointCurved \<Rightarrow> int \<Rightarrow> int \<Rightarrow> int \<Rightarrow>
   QRect list \<times> 'c vpGlobalCurvedText list \<Rightarrow> QRect list \<times> 'c vpGlobalCurvedText list" where
  "processSingleTileFeature_Point_Curved qt details tileSize tileOriginX tileOriginY acc =
     (let (rects, vpCurvedTextList) = acc;
          layerStyle = cv_layerStyle details;
          feature = cv_feature details;
          textToDraw = toUpper qt
            (getTextContent qt layerStyle (AbstractLayerFeature.truncate feature)
               (cv_mapZoom details) (cv_vpZoom details))
      in case textToDraw of
           [] \<Rightarrow> (rects, vpCurvedTextList)
         | firstChar # _ \<Rightarrow>
          (let textSize = getTextSize qt layerStyle (AbstractLayerFeature.truncate feature)
                            (cv_mapZoom details) (cv_vpZoom details);
               textFont = QFont_new (m_textFont layerStyle);
               spacing = getTextLetterSpacing qt layerStyle (AbstractLayerFeature.truncate feature)
                           (cv_mapZoom details) (cv_vpZoom details) textSize;
               textFont = setPixelSize textSize textFont;
               outlineSize = toInt qt (m_textHaloWidth layerStyle);
               outlineColor = toColor qt (m_textHaloColor layerStyle);
               transform = cv_transformIn details;
               transform = QTransform_scale (1 / 4096) (1 / 4096) transform;
               path = QTransform_mapPath transform (line feature)
           in if real_of_int (calctotalTextHorizontalAdvance qt textFont textToDraw
                                (truncToInt spacing)) > pathLength qt path
              then (rects, vpCurvedTextList)
              else
               (let flipText = isTextFlipped (angleAtPercent qt path 0);
                    maxAngle = getTextMaxAngle qt layerStyle (AbstractLayerFeature.truncate feature)
                                 (cv_mapZoom details) (cv_vpZoom details);
                    len = 0;
                    percentage = percentAtLength qt path len;
                    preAngle = angleAtPercent qt path 0;
                    textRect =
                      \<lparr>rx = truncToInt (fst (pointAtPercent qt path 0)),
                       ry = truncToInt (snd (pointAtPercent qt path 0)
                                        - real_of_int (cdiv (fontHeight qt textFont) 2)),
                       rw = horizontalAdvanceChar qt textFont firstChar,
                       rh = fontHeight qt textFont\<rparr>
                in case placeCharacters qt path textFont maxAngle spacing flipText
                          (if flipText then rev textToDraw else textToDraw)
                          len percentage preAngle [] textRect of
                     None \<Rightarrow> (rects, vpCurvedTextList)
                   | Some (charsVector, textRect) \<Rightarrow>
                      (let textRect = QRect_translate tileOriginX tileOriginY textRect
                       in if isOverlapping qt textRect rects then (rects, vpCurvedTextList)
                          else (rects @ [textRect],
                                vpCurvedTextList @
                                  [\<lparr>ct_textList = charsVector,
                                    ct_font = textFont,
                                    ct_textColor =
                                      getTextColor qt layerStyle
                                        (AbstractLayerFeature.truncate feature)
                                        (cv_mapZoom details) (cv_vpZoom details),
                                    ct_opacity =
                                      getTextOpacity qt layerStyle
                                        (AbstractLayerFeature.truncate feature)
                                        (cv_mapZoom details) (cv_vpZoom details),
                                    ct_tileOrigin = (tileOriginX, tileOriginY),
                                    ct_outlineColor = outlineColor,
                                    ct_outlineSize = outlineSize\<rparr>])))))"

text \<open>
  The quantities \<^verbatim>\<open>processSingleTileFeature_Point_Curved\<close> computes before its loop, by name:
  the text to draw (upper case), the font, the letter spacing in pixels, the feature's path
  in pixel coordinates, the maximum angle, whether the text is flipped, and the characters in
  the order the loop places them (from the last to the first when flipped).
\<close>

definition curvedText :: "('v, 'c) Qt \<Rightarrow> 'v PaintingDetailsPointCurved \<Rightarrow> QString" where
  "curvedText qt details =
     toUpper qt (getTextContent qt (cv_layerStyle details)
                   (AbstractLayerFeature.truncate (cv_feature details))
                   (cv_mapZoom details) (cv_vpZoom details))"

definition curvedFont :: "('v, 'c) Qt \<Rightarrow> 'v PaintingDetailsPointCurved \<Rightarrow> QFont" where
  "curvedFont qt details =
     setPixelSize
       (getTextSize qt (cv_layerStyle details) (AbstractLayerFeature.truncate (cv_feature details))
          (cv_mapZoom details) (cv_vpZoom details))
       (QFont_new (m_textFont (cv_layerStyle details)))"

definition curvedSpacing :: "('v, 'c) Qt \<Rightarrow> 'v PaintingDetailsPointCurved \<Rightarrow> real" where
  "curvedSpacing qt details =
     getTextLetterSpacing qt (cv_layerStyle details)
       (AbstractLayerFeature.truncate (cv_feature details))
       (cv_mapZoom details) (cv_vpZoom details)
       (getTextSize qt (cv_layerStyle details) (AbstractLayerFeature.truncate (cv_feature details))
          (cv_mapZoom details) (cv_vpZoom details))"

definition curvedPath :: "'v PaintingDetailsPointCurved \<Rightarrow> QPainterPath" where
  "curvedPath details =
     QTransform_mapPath (QTransform_scale (1 / 4096) (1 / 4096) (cv_transformIn details))
       (line (cv_feature details))"

definition curvedMaxAngle :: "('v, 'c) Qt \<Rightarrow> 'v PaintingDetailsPointCurved \<Rightarrow> int" where
  "curvedMaxAngle qt details =
     getTextMaxAngle qt (cv_layerStyle details) (AbstractLayerFeature.truncate (cv_feature details))
       (cv_mapZoom details) (cv_vpZoom details)"

definition curvedFlip :: "('v, 'c) Qt \<Rightarrow> 'v PaintingDetailsPointCurved \<Rightarrow> bool" where
  "curvedFlip qt details = isTextFlipped (angleAtPercent qt (curvedPath details) 0)"

definition curvedChars :: "('v, 'c) Qt \<Rightarrow> 'v PaintingDetailsPointCurved \<Rightarrow> QString" where
  "curvedChars qt details =
     (if curvedFlip qt details then rev (curvedText qt details) else curvedText qt details)"

text \<open>
  The arc lengths at which the loop places the characters \<open>chars\<close>, starting at \<open>len\<close>: every
  character advances by its horizontal advance plus the letter spacing, a space by its
  advance alone. The tangent angle at an arc length is the angle at its percentage.
\<close>

fun glyphLengths :: "('v, 'c) Qt \<Rightarrow> QFont \<Rightarrow> real \<Rightarrow> real \<Rightarrow> QString \<Rightarrow> real list" where
  "glyphLengths qt textFont spacing len [] = []"
| "glyphLengths qt textFont spacing len (c # chars) =
     len # glyphLengths qt textFont spacing
             (len + real_of_int (horizontalAdvanceChar qt textFont c)
                  + (if c = CHR '' '' then 0 else spacing))
             chars"

definition tangentAtLength :: "('v, 'c) Qt \<Rightarrow> QPainterPath \<Rightarrow> real \<Rightarrow> real" where
  "tangentAtLength qt path len = angleAtPercent qt path (percentAtLength qt path len)"

section \<open>Polygons (src/unnamed/part_005)\<close>

text \<open>
  \<^verbatim>\<open>getFillColor\<close> (lines 17-51): the resolved fill colour, its alpha set to the resolved fill opacity times
  its own alpha.
\<close>

definition getFillColor ::
  "('v, 'c) Qt \<Rightarrow> 'v FillLayerStyle \<Rightarrow> 'v AbstractLayerFeature \<Rightarrow> int \<Rightarrow> real \<Rightarrow> 'c" where
  "getFillColor qt layerStyle feature mapZoom vpZoom =
     (let colorVariant = getFillColorAtZoom layerStyle mapZoom;
          color = (if isJsonArray qt colorVariant
                   then toColor qt (resolveExpression qt colorVariant feature mapZoom vpZoom)
                   else toColor qt colorVariant);
          fillOpacityVariant = getFillOpacityAtZoom layerStyle mapZoom;
          fillOpacity = (if isJsonArray qt fillOpacityVariant
                         then toFloat qt (resolveExpression qt fillOpacityVariant feature
                                            mapZoom vpZoom)
                         else toFloat qt fillOpacityVariant)
      in setAlphaF qt (fillOpacity * alphaF qt color) color)"

record 'v PaintingDetailsPolygon =
  pg_layerStyle :: "'v FillLayerStyle"
  pg_feature :: "'v PolygonFeature"
  pg_mapZoom :: int
  pg_vpZoom :: real
  pg_transformIn :: QTransform

text \<open>
  \<^verbatim>\<open>Bach::paintSingleTileFeature_Polygon\<close> (lines 60-78), on the painter \<^verbatim>\<open>details.painter\<close> points to.
  \<^verbatim>\<open>drawPath\<close> draws with the brush and the pen set at that moment.
\<close>

definition paintSingleTileFeature_Polygon ::
  "('v, 'c) Qt \<Rightarrow> 'v PaintingDetailsPolygon \<Rightarrow> 'c QPainter \<Rightarrow> 'c QPainter" where
  "paintSingleTileFeature_Polygon qt details painter0 =
     (let layerStyle = pg_layerStyle details;
          feature = pg_feature details;
          brushColor = getFillColor qt layerStyle (AbstractLayerFeature.truncate feature)
                         (pg_mapZoom details) (pg_vpZoom details);
          painter = painter0\<lparr>painterBrush := SolidBrush brushColor\<rparr>;
          painter = painter\<lparr>painterAntialiasing := m_antialias layerStyle\<rparr>;
          painter = painter\<lparr>painterPen := NoPen\<rparr>;
          path = polygon feature;
          transform = pg_transformIn details;
          transform = QTransform_scale (1 / 4096) (1 / 4096) transform;
          newPath = QTransform_mapPath transform path
      in painter\<lparr>painterDrawn :=
           painterDrawn painter @ [(newPath, painterBrush painter, painterPen painter)]\<rparr>)"

section \<open>A reference instance of the Qt operations\<close>

text \<open>
  The theorems below hold for all Qt operations. To evaluate the renderer on concrete inputs,
  this section fixes one instance: variants are tagged values, colours are RGBA quadruples,
  the expression evaluator knows the operator \<open>get\<close>, the upper case of a letter \<open>a\<close> to
  \<open>z\<close> clears bit 5 of its code, the font is fixed-pitch with an advance
  and a height of one pixel size per character, a path is measured as the polyline through
  its elements (with axis-parallel segments), and rectangles intersect and unite as
  rectangles of positive size do.
\<close>

datatype variant =
  Invalid | JsonArray "QString list" | StringV QString | IntV int | FloatV real
  | ColorV "int \<times> int \<times> int \<times> real"

type_synonym rgba = "int \<times> int \<times> int \<times> real"

fun ref_toInt :: "variant \<Rightarrow> int" where
  "ref_toInt (IntV n) = n"
| "ref_toInt (FloatV d) = qRound d"
| "ref_toInt _ = 0"

fun ref_toFloat :: "variant \<Rightarrow> real" where
  "ref_toFloat (FloatV d) = d"
| "ref_toFloat (IntV n) = real_of_int n"
| "ref_toFloat _ = 0"

fun ref_toColor :: "variant \<Rightarrow> rgba" where
  "ref_toColor (ColorV c) = c"
| "ref_toColor _ = (0, 0, 0, 1)"

fun ref_toQString :: "variant \<Rightarrow> QString" where
  "ref_toQString (StringV s) = s"
| "ref_toQString _ = []"

fun ref_isJsonArray :: "variant \<Rightarrow> bool" where
  "ref_isJsonArray (JsonArray _) = True"
| "ref_isJsonArray _ = False"

fun ref_resolveExpression ::
  "variant \<Rightarrow> variant AbstractLayerFeature \<Rightarrow> int \<Rightarrow> real \<Rightarrow> variant" where
  "ref_resolveExpression (JsonArray [op, key]) feature mapZoom vpZoom =
     (if op = ''get''
      then (case featureMetaData feature key of None \<Rightarrow> Invalid | Some v \<Rightarrow> v)
      else Invalid)"
| "ref_resolveExpression _ feature mapZoom vpZoom = Invalid"

definition ref_upperCase :: "char \<Rightarrow> QString" where
  "ref_upperCase c =
     (if (97::nat) \<le> of_char c \<and> of_char c \<le> (122::nat)
      then [case c of Char b0 b1 b2 b3 b4 b5 b6 b7 \<Rightarrow> Char b0 b1 b2 b3 b4 False b6 b7]
      else [c])"

definition ref_boundingRect :: "QPainterPath \<Rightarrow> QRectF" where
  "ref_boundingRect path =
     (case path of
        [] \<Rightarrow> \<lparr>fx = 0, fy = 0, fw = 0, fh = 0\<rparr>
      | (e, p) # rest \<Rightarrow>
          (let xs = map (\<lambda>(e, q). fst q) path;
               ys = map (\<lambda>(e, q). snd q) path;
               x0 = foldl min (fst p) xs; x1 = foldl max (fst p) xs;
               y0 = foldl min (snd p) ys; y1 = foldl max (snd p) ys
           in \<lparr>fx = x0, fy = y0, fw = x1 - x0, fh = y1 - y0\<rparr>))"

definition ref_addText :: "QFont \<Rightarrow> QString \<Rightarrow> QPainterPath" where
  "ref_addText font text =
     (let w = real_of_int (pixelSize font * int (length text));
          h = real_of_int (pixelSize font)
      in [(MoveToElement, (0, - h)), (LineToElement, (w, - h)),
          (LineToElement, (w, 0)), (LineToElement, (0, 0))])"

definition ref_toRect :: "QRectF \<Rightarrow> QRect" where
  "ref_toRect r = \<lparr>rx = qRound (fx r), ry = qRound (fy r), rw = qRound (fw r), rh = qRound (fh r)\<rparr>"

text \<open>The segments of a polyline, the length and the direction of an axis-parallel segment.\<close>

fun segments :: "QPainterPath \<Rightarrow> (QPointF \<times> QPointF) list" where
  "segments ((e, p) # (e', q) # rest) = (p, q) # segments ((e', q) # rest)"
| "segments _ = []"

definition segmentLength :: "QPointF \<times> QPointF \<Rightarrow> real" where
  "segmentLength s = \<bar>fst (snd s) - fst (fst s)\<bar> + \<bar>snd (snd s) - snd (fst s)\<bar>"

definition segmentAngle :: "QPointF \<times> QPointF \<Rightarrow> real" where
  "segmentAngle s =
     (if fst (fst s) < fst (snd s) then 0
      else if fst (snd s) < fst (fst s) then 180
      else if snd (snd s) < snd (fst s) then 90 else 270)"

fun segmentAt :: "(QPointF \<times> QPointF) list \<Rightarrow> real \<Rightarrow> ((QPointF \<times> QPointF) \<times> real) option" where
  "segmentAt [] d = None"
| "segmentAt [s] d = Some (s, d)"
| "segmentAt (s # s' # ss) d =
     (if d < segmentLength s then Some (s, d) else segmentAt (s' # ss) (d - segmentLength s))"

definition ref_pathLength :: "QPainterPath \<Rightarrow> real" where
  "ref_pathLength path = sum_list (map segmentLength (segments path))"

definition ref_percentAtLength :: "QPainterPath \<Rightarrow> real \<Rightarrow> real" where
  "ref_percentAtLength path len =
     (if len \<le> 0 then 0 else if len > ref_pathLength path then 1
      else len / ref_pathLength path)"

definition ref_pointAtPercent :: "QPainterPath \<Rightarrow> real \<Rightarrow> QPointF" where
  "ref_pointAtPercent path t =
     (case segmentAt (segments path) (t * ref_pathLength path) of
        None \<Rightarrow> (0, 0)
      | Some (s, d) \<Rightarrow>
          (fst (fst s) + d * sgn (fst (snd s) - fst (fst s)),
           snd (fst s) + d * sgn (snd (snd s) - snd (fst s))))"

definition ref_angleAtPercent :: "QPainterPath \<Rightarrow> real \<Rightarrow> real" where
  "ref_angleAtPercent path t =
     (case segmentAt (segments path) (t * ref_pathLength path) of
        None \<Rightarrow> 0
      | Some (s, d) \<Rightarrow> segmentAngle s)"

definition ref_intersects :: "QRect \<Rightarrow> QRect \<Rightarrow> bool" where
  "ref_intersects r r' =
     (rx r < rx r' + rw r' \<and> rx r' < rx r + rw r \<and> ry r < ry r' + rh r' \<and> ry r' < ry r + rh r)"

definition ref_united :: "QRect \<Rightarrow> QRect \<Rightarrow> QRect" where
  "ref_united r r' =
     (let x0 = min (rx r) (rx r'); y0 = min (ry r) (ry r');
          x1 = max (rx r + rw r) (rx r' + rw r'); y1 = max (ry r + rh r) (ry r' + rh r')
      in \<lparr>rx = x0, ry = y0, rw = x1 - x0, rh = y1 - y0\<rparr>)"

definition refQt :: "(variant, rgba) Qt" where
  "refQt =
     \<lparr>isJsonArray = ref_isJsonArray,
      isNullOrInvalid = (\<lambda>v. v = Invalid),
      toInt = ref_toInt,
      toFloat = ref_toFloat,
      toColor = ref_toColor,
      toQString = ref_toQString,
      resolveExpression = ref_resolveExpression,
      upperCase = ref_upperCase,
      horizontalAdvance = (\<lambda>font text. pixelSize font * int (length text)),
      horizontalAdvanceChar = (\<lambda>font c. pixelSize font),
      fontHeight = pixelSize,
      fontHeightF = (\<lambda>font. real_of_int (pixelSize font)),
      addText = ref_addText,
      boundingRect = ref_boundingRect,
      toRect = ref_toRect,
      pathLength = ref_pathLength,
      percentAtLength = ref_percentAtLength,
      pointAtPercent = ref_pointAtPercent,
      angleAtPercent = ref_angleAtPercent,
      intersects = ref_intersects,
      united = ref_united,
      alphaF = (\<lambda>c. snd (snd (snd c))),
      setAlphaF = (\<lambda>a c. (fst c, fst (snd c), fst (snd (snd c)), a))\<rparr>"

text \<open>A symbol layer style with constant properties, and features to evaluate on.\<close>

definition refStyle :: "variant SymbolLayerStyle" where
  "refStyle =
     \<lparr>getTextColorAtZoom = (\<lambda>z. ColorV (0, 0, 0, 1)),
      getTextSizeAtZoom = (\<lambda>z. IntV 16),
      getTextOpacityAtZoom = (\<lambda>z. FloatV 1),
      getTextMaxAngleAtZoom = (\<lambda>z. IntV 45),
      getTextLetterSpacingAtZoom = (\<lambda>z. FloatV 0),
      m_textField = StringV ''{name}'',
      m_textFont = [''Open Sans Regular''],
      m_textHaloWidth = IntV 1,
      m_textHaloColor = ColorV (255, 255, 255, 1),
      m_textMaxWidth = IntV 10\<rparr>"

definition refPainter :: "rgba QPainter" where
  "refPainter =
     \<lparr>painterFont = QFont_new [''Sans''],
      painterBrush = NoBrush,
      painterPen = SolidPen (0, 0, 0, 1) 1,
      painterOpacity = 1,
      painterAntialiasing = True,
      painterDrawn = []\<rparr>"

definition namedPoint :: "QString \<Rightarrow> QPoint list \<Rightarrow> variant PaintingDetailsPoint" where
  "namedPoint name pts =
     \<lparr>pt_layerStyle = refStyle,
      pt_feature = \<lparr>featureKind = PointType,
                    featureMetaData = [''name'' \<mapsto> StringV name],
                    points = pts\<rparr>,
      pt_mapZoom = 2,
      pt_vpZoom = 2\<rparr>"

definition namedLine :: "QString \<Rightarrow> QPointF list \<Rightarrow> variant PaintingDetailsPointCurved" where
  "namedLine name pts =
     \<lparr>cv_layerStyle = refStyle,
      cv_feature = \<lparr>featureKind = LineType,
                    featureMetaData = [''name'' \<mapsto> StringV name],
                    line = map (\<lambda>p. (LineToElement, p)) pts\<rparr>,
      cv_mapZoom = 2,
      cv_vpZoom = 2,
      cv_transformIn = QTransform_scale 4096 4096 QTransform_identity\<rparr>"

text \<open>The same line feature under a style with a letter spacing of \<open>ems\<close> font sizes.\<close>

definition spacedLine ::
  "real \<Rightarrow> QString \<Rightarrow> QPointF list \<Rightarrow> variant PaintingDetailsPointCurved" where
  "spacedLine ems name pts =
     (namedLine name pts)
       \<lparr>cv_layerStyle := refStyle\<lparr>getTextLetterSpacingAtZoom := (\<lambda>z. FloatV ems)\<rparr>\<rparr>"

section \<open>Properties of the visible-tile calculator\<close>

lemma std_clamp_range: "lo \<le> hi \<Longrightarrow> lo \<le> std_clamp v lo hi \<and> std_clamp v lo hi \<le> hi"
  by (simp add: std_clamp_def)

lemma clampToGrid_range:
  "0 < tileCount \<Longrightarrow> 0 \<le> clampToGrid tileCount i \<and> clampToGrid tileCount i \<le> tileCount - 1"
  unfolding clampToGrid_def by (rule std_clamp_range) simp

lemma clampToGrid_one: "clampToGrid 1 i = 0"
  by (simp add: clampToGrid_def std_clamp_def)

text \<open>Every returned tile lies in the two clamped index ranges.\<close>

lemma calcVisibleTiles_members:
  assumes "t \<in> set (calcVisibleTiles vpX vpY a zv mz)"
  shows "zoom t = max 0 mz \<and> 0 \<le> tx t \<and> tx t \<le> 2 ^ nat (max 0 mz) - 1
         \<and> 0 \<le> ty t \<and> ty t \<le> 2 ^ nat (max 0 mz) - 1"
proof -
  define n :: int where "n = 2 ^ nat (max 0 mz)"
  have pos: "0 < n" by (simp add: n_def)
  obtain w h where wh: "calcViewportSizeNorm zv a = (w, h)"
    by (cases "calcViewportSizeNorm zv a")
  define L where "L = clampToGrid n \<lfloor>(vpX - w / 2) * real_of_int n\<rfloor>"
  define R where "R = clampToGrid n \<lceil>(vpX + w / 2) * real_of_int n\<rceil>"
  define T where "T = clampToGrid n \<lfloor>(vpY - h / 2) * real_of_int n\<rfloor>"
  define B where "B = clampToGrid n \<lceil>(vpY + h / 2) * real_of_int n\<rceil>"
  have eq: "calcVisibleTiles vpX vpY a zv mz =
      concat (map (\<lambda>y. map (\<lambda>x. \<lparr>zoom = max 0 mz, tx = x, ty = y\<rparr>) [L..R]) [T..B])"
    by (simp add: calcVisibleTiles_def Let_def wh L_def R_def T_def B_def n_def)
  from assms obtain x y where xy: "T \<le> y" "y \<le> B" "L \<le> x" "x \<le> R"
      and t: "t = \<lparr>zoom = max 0 mz, tx = x, ty = y\<rparr>"
    unfolding eq by auto
  have "0 \<le> L" "R \<le> n - 1" "0 \<le> T" "B \<le> n - 1"
    using clampToGrid_range [OF pos] by (simp_all add: L_def R_def T_def B_def)
  with xy t show ?thesis by (simp add: n_def)
qed

text \<open>At a map zoom of at most 0 the grid has one tile, and it is the result.\<close>

lemma calcVisibleTiles_zoom0:
  assumes "mz \<le> 0"
  shows "calcVisibleTiles vpX vpY a zv mz = [\<lparr>zoom = 0, tx = 0, ty = 0\<rparr>]"
proof -
  obtain w h where wh: "calcViewportSizeNorm zv a = (w, h)"
    by (cases "calcViewportSizeNorm zv a")
  from assms have z: "max 0 mz = 0" by simp
  show ?thesis
    by (simp add: calcVisibleTiles_def Let_def wh z clampToGrid_one)
qed

text \<open>
  C1 (visible set, scenario S4). On the viewport centre \<open>(0.5, 0.5)\<close> with aspect \<open>1\<close>,
  viewport zoom \<open>2\<close> and map zoom \<open>2\<close> the viewport is the square \<open>[0.375, 0.625]\<^sup>2\<close>; in tile
  units it is \<open>[1.5, 2.5]\<^sup>2\<close>. \<^verbatim>\<open>calcVisibleTiles\<close> takes the tile columns and rows from
  \<open>\<lfloor>1.5\<rfloor> = 1\<close> up to and including \<open>\<lceil>2.5\<rceil> = 3\<close>: it returns nine tiles, and not the four
  tiles \<open>(2,1,1), (2,1,2), (2,2,1), (2,2,2)\<close> that meet the viewport. The tile \<open>(2,3,3)\<close>, the
  square \<open>[0.75, 1]\<^sup>2\<close>, is returned and does not meet the viewport.
\<close>

theorem calcVisibleTiles_S4_returns_nine_tiles:
  "calcVisibleTiles (1/2) (1/2) 1 2 2 =
     [\<lparr>zoom = 2, tx = 1, ty = 1\<rparr>, \<lparr>zoom = 2, tx = 2, ty = 1\<rparr>, \<lparr>zoom = 2, tx = 3, ty = 1\<rparr>,
      \<lparr>zoom = 2, tx = 1, ty = 2\<rparr>, \<lparr>zoom = 2, tx = 2, ty = 2\<rparr>, \<lparr>zoom = 2, tx = 3, ty = 2\<rparr>,
      \<lparr>zoom = 2, tx = 1, ty = 3\<rparr>, \<lparr>zoom = 2, tx = 2, ty = 3\<rparr>, \<lparr>zoom = 2, tx = 3, ty = 3\<rparr>]
   \<and> \<not> tileMeetsViewport (1/2) (1/2) 1 2 \<lparr>zoom = 2, tx = 3, ty = 3\<rparr>
   \<and> filter (tileMeetsViewport (1/2) (1/2) 1 2) (calcVisibleTiles (1/2) (1/2) 1 2 2) =
     [\<lparr>zoom = 2, tx = 1, ty = 1\<rparr>, \<lparr>zoom = 2, tx = 2, ty = 1\<rparr>,
      \<lparr>zoom = 2, tx = 1, ty = 2\<rparr>, \<lparr>zoom = 2, tx = 2, ty = 2\<rparr>]"
proof -
  have nine: "calcVisibleTiles (1/2) (1/2) 1 2 2 =
     [\<lparr>zoom = 2, tx = 1, ty = 1\<rparr>, \<lparr>zoom = 2, tx = 2, ty = 1\<rparr>, \<lparr>zoom = 2, tx = 3, ty = 1\<rparr>,
      \<lparr>zoom = 2, tx = 1, ty = 2\<rparr>, \<lparr>zoom = 2, tx = 2, ty = 2\<rparr>, \<lparr>zoom = 2, tx = 3, ty = 2\<rparr>,
      \<lparr>zoom = 2, tx = 1, ty = 3\<rparr>, \<lparr>zoom = 2, tx = 2, ty = 3\<rparr>, \<lparr>zoom = 2, tx = 3, ty = 3\<rparr>]"
    by (simp add: calcVisibleTiles_def calcViewportSizeNorm_def clampToGrid_def std_clamp_def
        Let_def upto.simps)
  show ?thesis
    unfolding nine by (simp add: tileMeetsViewport_def Let_def)
qed

text \<open>
  C6 (grid range, negative zoom). Every tile \<^verbatim>\<open>calcVisibleTiles\<close> returns has the zoom
  \<open>max(zm, 0)\<close> and its \<open>x\<close> and \<open>y\<close> in \<open>[0, 2^max(zm,0) - 1]\<close>; for a negative map zoom
  the result is the result for zoom \<open>0\<close>, the single tile \<open>(0, 0, 0)\<close>. The bound
  \<open>mapZoomLevel \<le> 30\<close> is the range in which the \<^verbatim>\<open>int\<close> shift \<^verbatim>\<open>1 << mapZoomLevel\<close> of the
  source is defined (zoom levels go up to 16).
\<close>

theorem calcVisibleTiles_within_grid:
  assumes "mapZoomLevel \<le> 30"
  shows "(\<forall>t \<in> set (calcVisibleTiles vpX vpY a zv mapZoomLevel).
            zoom t = max 0 mapZoomLevel
            \<and> 0 \<le> tx t \<and> tx t \<le> 2 ^ nat (max 0 mapZoomLevel) - 1
            \<and> 0 \<le> ty t \<and> ty t \<le> 2 ^ nat (max 0 mapZoomLevel) - 1)
         \<and> (mapZoomLevel < 0 \<longrightarrow>
              calcVisibleTiles vpX vpY a zv mapZoomLevel = calcVisibleTiles vpX vpY a zv 0
              \<and> calcVisibleTiles vpX vpY a zv mapZoomLevel = [\<lparr>zoom = 0, tx = 0, ty = 0\<rparr>])"
proof (intro conjI ballI impI)
  fix t assume "t \<in> set (calcVisibleTiles vpX vpY a zv mapZoomLevel)"
  from calcVisibleTiles_members [OF this]
  show "zoom t = max 0 mapZoomLevel" "0 \<le> tx t" "tx t \<le> 2 ^ nat (max 0 mapZoomLevel) - 1"
    "0 \<le> ty t" "ty t \<le> 2 ^ nat (max 0 mapZoomLevel) - 1" by simp_all
next
  assume neg: "mapZoomLevel < 0"
  then show "calcVisibleTiles vpX vpY a zv mapZoomLevel = calcVisibleTiles vpX vpY a zv 0"
    by (simp add: calcVisibleTiles_zoom0)
  from neg show "calcVisibleTiles vpX vpY a zv mapZoomLevel = [\<lparr>zoom = 0, tx = 0, ty = 0\<rparr>]"
    by (simp add: calcVisibleTiles_zoom0)
qed

text \<open>
  The theorem at map zoom \<open>-3\<close> (the single tile of zoom 0) and at map zoom \<open>2\<close> on the
  viewport of scenario S4 (a non-empty result inside the \<open>4 \<times> 4\<close> grid).
\<close>

theorem calcVisibleTiles_within_grid_witness:
  "(-3::int) \<le> 30 \<and> (2::int) \<le> 30
   \<and> calcVisibleTiles (1/2) (1/2) 1 2 (-3) = [\<lparr>zoom = 0, tx = 0, ty = 0\<rparr>]
   \<and> list_all (\<lambda>t. zoom t = 2 \<and> 0 \<le> tx t \<and> tx t \<le> 3 \<and> 0 \<le> ty t \<and> ty t \<le> 3)
        (calcVisibleTiles (1/2) (1/2) 1 2 2)
   \<and> calcVisibleTiles (1/2) (1/2) 1 2 2 \<noteq> []"
proof -
  have a: "(-3::int) \<le> 30" and b: "(2::int) \<le> 30" by simp_all
  have ne: "calcVisibleTiles (1/2) (1/2) 1 2 2 \<noteq> []"
    by (simp add: calcVisibleTiles_def calcViewportSizeNorm_def clampToGrid_def std_clamp_def
        Let_def upto.simps)
  have neg: "calcVisibleTiles (1/2) (1/2) 1 2 (-3) = [\<lparr>zoom = 0, tx = 0, ty = 0\<rparr>]"
  proof -
    have "(-3::int) < 0" by simp
    with calcVisibleTiles_within_grid [OF a, of "1/2" "1/2" 1 2] show ?thesis by blast
  qed
  have pos: "list_all (\<lambda>t. zoom t = 2 \<and> 0 \<le> tx t \<and> tx t \<le> 3 \<and> 0 \<le> ty t \<and> ty t \<le> 3)
        (calcVisibleTiles (1/2) (1/2) 1 2 2)"
    using calcVisibleTiles_within_grid [OF b, of "1/2" "1/2" 1 2] by (simp add: list_all_iff)
  from a b neg pos ne show ?thesis by blast
qed

section \<open>Properties of the word wrap\<close>

lemma split_space_nonempty: "split_space s \<noteq> []"
  by (induction s) (auto split: list.splits)

text \<open>
  The loop keeps this invariant, for any set \<open>W\<close> that holds the words: every cluster, and
  the current one, either fits or is a word.
\<close>

lemma getCorrectedText_loop_lines:
  assumes "adv cur \<le> bound \<or> cur \<in> W"
    and "\<forall>c \<in> set clusters. adv c \<le> bound \<or> c \<in> W"
    and "set ws \<subseteq> W"
  shows "\<forall>l \<in> set (getCorrectedText_loop adv bound cur clusters ws). adv l \<le> bound \<or> l \<in> W"
  using assms
proof (induction ws arbitrary: cur clusters)
  case Nil
  then show ?case by auto
next
  case (Cons w ws)
  show ?case
  proof (cases "adv (cur @ '' '' @ w) > bound")
    case True
    have "\<forall>l \<in> set (getCorrectedText_loop adv bound w (clusters @ [cur]) ws).
            adv l \<le> bound \<or> l \<in> W"
      using Cons.prems by (intro Cons.IH) auto
    with True show ?thesis by simp
  next
    case False
    have "\<forall>l \<in> set (getCorrectedText_loop adv bound (cur @ '' '' @ w) clusters ws).
            adv l \<le> bound \<or> l \<in> W"
      using Cons.prems False by (intro Cons.IH) auto
    with False show ?thesis by simp
  qed
qed

text \<open>
  C5, as the claim states it, fails: the wrap breaks the text at spaces only, so a word that
  is wider than the limit stays on a line of its own. With a fixed-pitch font of pixel size
  16 (16 pixels per character) and a maximum width of 10 the limit is 160 pixels; the second
  line of the wrapped text below is one word of 20 characters, 320 pixels wide.
\<close>

theorem getCorrectedText_long_word_exceeds_limit:
  "getCorrectedText refQt ''Saint Llanfairpwllgwyngyll Bay''
     \<lparr>families = [''Sans''], pixelSize = 16\<rparr> 10
   = [''Saint'', ''Llanfairpwllgwyngyll'', ''Bay'']
   \<and> horizontalAdvance refQt \<lparr>families = [''Sans''], pixelSize = 16\<rparr> ''Llanfairpwllgwyngyll''
     = 320
   \<and> pixelSize \<lparr>families = [''Sans''], pixelSize = 16\<rparr> * 10 = 160
   \<and> \<not> (\<forall>line \<in> set (getCorrectedText refQt ''Saint Llanfairpwllgwyngyll Bay''
                          \<lparr>families = [''Sans''], pixelSize = 16\<rparr> 10).
          horizontalAdvance refQt \<lparr>families = [''Sans''], pixelSize = 16\<rparr> line
          \<le> pixelSize \<lparr>families = [''Sans''], pixelSize = 16\<rparr> * 10)"
proof -
  have lines: "getCorrectedText refQt ''Saint Llanfairpwllgwyngyll Bay''
      \<lparr>families = [''Sans''], pixelSize = 16\<rparr> 10
    = [''Saint'', ''Llanfairpwllgwyngyll'', ''Bay'']"
    by (simp add: getCorrectedText_def refQt_def)
  show ?thesis
    unfolding lines by (simp add: refQt_def)
qed

text \<open>
  C5, amended. Every line the wrap produces either has a horizontal advance of at most
  \<open>maxTextWidth \<cdot> pixelSize\<close>, or is a single word of the text (one of the parts between
  its spaces), which the wrap never breaks.
\<close>

theorem getCorrectedText_lines_fit_or_single_word:
  "\<forall>line \<in> set (getCorrectedText qt text font rectWidth).
     horizontalAdvance qt font line \<le> pixelSize font * rectWidth
     \<or> line \<in> set (split_space text)"
proof (cases "horizontalAdvance qt font text \<le> pixelSize font * rectWidth")
  case True
  then show ?thesis by (simp add: getCorrectedText_def)
next
  case False
  obtain w ws where sp: "split_space text = w # ws"
    using split_space_nonempty [of "text"] by (cases "split_space text") auto
  have "\<forall>l \<in> set (getCorrectedText_loop (horizontalAdvance qt font)
                      (pixelSize font * rectWidth) w [] ws).
          horizontalAdvance qt font l \<le> pixelSize font * rectWidth
          \<or> l \<in> set (split_space text)"
    by (rule getCorrectedText_loop_lines) (auto simp: sp)
  with False show ?thesis by (simp add: getCorrectedText_def sp)
qed

text \<open>
  The amended theorem on two texts: one whose lines all fit after wrapping, and the text of
  the counterexample, whose over-long line is the word \<open>Llanfairpwllgwyngyll\<close>.
\<close>

theorem getCorrectedText_lines_fit_or_single_word_witness:
  "getCorrectedText refQt ''Gulf of Mexico'' \<lparr>families = [''Sans''], pixelSize = 16\<rparr> 10
   = [''Gulf of'', ''Mexico'']
   \<and> list_all (\<lambda>line. horizontalAdvance refQt \<lparr>families = [''Sans''], pixelSize = 16\<rparr> line
                        \<le> pixelSize \<lparr>families = [''Sans''], pixelSize = 16\<rparr> * 10
                      \<or> line \<in> set (split_space ''Gulf of Mexico''))
        (getCorrectedText refQt ''Gulf of Mexico'' \<lparr>families = [''Sans''], pixelSize = 16\<rparr> 10)
   \<and> list_all (\<lambda>line. horizontalAdvance refQt \<lparr>families = [''Sans''], pixelSize = 16\<rparr> line
                        \<le> pixelSize \<lparr>families = [''Sans''], pixelSize = 16\<rparr> * 10
                      \<or> line \<in> set (split_space ''Saint Llanfairpwllgwyngyll Bay''))
        (getCorrectedText refQt ''Saint Llanfairpwllgwyngyll Bay''
           \<lparr>families = [''Sans''], pixelSize = 16\<rparr> 10)
   \<and> ''Llanfairpwllgwyngyll'' \<in> set (split_space ''Saint Llanfairpwllgwyngyll Bay'')"
proof -
  have lines: "getCorrectedText refQt ''Gulf of Mexico'' \<lparr>families = [''Sans''], pixelSize = 16\<rparr> 10
    = [''Gulf of'', ''Mexico'']"
    by (simp add: getCorrectedText_def refQt_def)
  have word: "''Llanfairpwllgwyngyll'' \<in> set (split_space ''Saint Llanfairpwllgwyngyll Bay'')"
    by simp
  from lines word
    getCorrectedText_lines_fit_or_single_word [of refQt "''Gulf of Mexico''"
      "\<lparr>families = [''Sans''], pixelSize = 16\<rparr>" 10]
    getCorrectedText_lines_fit_or_single_word [of refQt "''Saint Llanfairpwllgwyngyll Bay''"
      "\<lparr>families = [''Sans''], pixelSize = 16\<rparr>" 10]
  show ?thesis
    unfolding list_all_iff by blast
qed

section \<open>Properties of the axis-aligned labels\<close>

text \<open>
  The transform of \<^verbatim>\<open>processSingleTileFeature_Point\<close> (the identity scaled by \<open>1/4096\<close> and by
  the tile size) maps a point to its coordinates times \<open>tileSize / 4096\<close>, rounded.
\<close>

lemma tile_transform_map:
  "QTransform_map
     (QTransform_scale (real_of_int tileSize) (real_of_int tileSize)
        (QTransform_scale (1 / 4096) (1 / 4096) QTransform_identity)) (x, y)
   = (qRound (real_of_int x * real_of_int tileSize / 4096),
      qRound (real_of_int y * real_of_int tileSize / 4096))"
  by (simp add: QTransform_map_def QTransform_mapF_def QTransform_scale_def
      QTransform_identity_def toPointF_def Let_def mult.commute)

text \<open>Evaluation of the getters on the reference instance.\<close>

lemmas ref_getters =
  refQt_def refStyle_def namedPoint_def namedLine_def
  getTextContent_def getTextSize_def getTextColor_def getTextOpacity_def getTextMaxAngle_def
  getTextLetterSpacing_def AbstractLayerFeature.truncate_def

text \<open>The operations of the reference instance, one by one, for evaluation.\<close>

lemma refQt_sel:
  "isJsonArray refQt = ref_isJsonArray"
  "isNullOrInvalid refQt = (\<lambda>v. v = Invalid)"
  "toInt refQt = ref_toInt"
  "toFloat refQt = ref_toFloat"
  "toColor refQt = ref_toColor"
  "toQString refQt = ref_toQString"
  "resolveExpression refQt = ref_resolveExpression"
  "upperCase refQt = ref_upperCase"
  "horizontalAdvance refQt = (\<lambda>font text. pixelSize font * int (length text))"
  "horizontalAdvanceChar refQt = (\<lambda>font c. pixelSize font)"
  "fontHeight refQt = pixelSize"
  "fontHeightF refQt = (\<lambda>font. real_of_int (pixelSize font))"
  "addText refQt = ref_addText"
  "boundingRect refQt = ref_boundingRect"
  "toRect refQt = ref_toRect"
  "pathLength refQt = ref_pathLength"
  "percentAtLength refQt = ref_percentAtLength"
  "pointAtPercent refQt = ref_pointAtPercent"
  "angleAtPercent refQt = ref_angleAtPercent"
  "intersects refQt = ref_intersects"
  "united refQt = ref_united"
  "alphaF refQt = (\<lambda>c. snd (snd (snd c)))"
  "setAlphaF refQt = (\<lambda>a c. (fst c, fst (snd c), fst (snd (snd c)), a))"
  by (simp_all add: refQt_def)

lemma refStyle_sel:
  "getTextColorAtZoom refStyle = (\<lambda>z. ColorV (0, 0, 0, 1))"
  "getTextSizeAtZoom refStyle = (\<lambda>z. IntV 16)"
  "getTextOpacityAtZoom refStyle = (\<lambda>z. FloatV 1)"
  "getTextMaxAngleAtZoom refStyle = (\<lambda>z. IntV 45)"
  "getTextLetterSpacingAtZoom refStyle = (\<lambda>z. FloatV 0)"
  "m_textField refStyle = StringV ''{name}''"
  "m_textFont refStyle = [''Open Sans Regular'']"
  "m_textHaloWidth refStyle = IntV 1"
  "m_textHaloColor refStyle = ColorV (255, 255, 255, 1)"
  "m_textMaxWidth refStyle = IntV 10"
  by (simp_all add: refStyle_def)

lemmas ref_eval =
  refQt_sel refStyle_sel refPainter_def namedPoint_def namedLine_def
  getTextContent_def getTextSize_def getTextColor_def getTextOpacity_def getTextMaxAngle_def
  getTextLetterSpacing_def getCorrectedText_def anchorCoordinates_def
  QFont_new_def setPixelSize_def AbstractLayerFeature.truncate_def
  QTransform_map_def QTransform_mapF_def QTransform_scale_def QTransform_identity_def
  QTransform_mapPath_def toPointF_def qRound_def truncToInt_def cdiv_def
  ref_addText_def ref_boundingRect_def ref_toRect_def toRectF_def
  QPainterPath_translate_def QRectF_translate_def QRect_translate_def
  ref_intersects_def ref_united_def ref_upperCase_def toUpper_def
  ref_pathLength_def ref_percentAtLength_def ref_pointAtPercent_def ref_angleAtPercent_def
  segmentLength_def segmentAngle_def isTextFlipped_def calctotalTextHorizontalAdvance_def

text \<open>
  \<^verbatim>\<open>processSingleTileFeature_Point\<close> with its local variables replaced by the named
  quantities.
\<close>

lemma point_unfold:
  "processSingleTileFeature_Point qt d tileSize ox oy force (painter, rects, l) =
     (if pointText qt d = [] then Inr (painter, rects, l)
      else case anchorCoordinates (points (pt_feature d)) of
             Inl e \<Rightarrow> Inl e
           | Inr coordinates \<Rightarrow>
              (if fst (QTransform_map
                        (QTransform_scale (real_of_int tileSize) (real_of_int tileSize)
                           (QTransform_scale (1 / 4096) (1 / 4096) QTransform_identity))
                        coordinates) < 0
                  \<or> fst (QTransform_map
                        (QTransform_scale (real_of_int tileSize) (real_of_int tileSize)
                           (QTransform_scale (1 / 4096) (1 / 4096) QTransform_identity))
                        coordinates) > tileSize
                  \<or> snd (QTransform_map
                        (QTransform_scale (real_of_int tileSize) (real_of_int tileSize)
                           (QTransform_scale (1 / 4096) (1 / 4096) QTransform_identity))
                        coordinates) < 0
                  \<or> snd (QTransform_map
                        (QTransform_scale (real_of_int tileSize) (real_of_int tileSize)
                           (QTransform_scale (1 / 4096) (1 / 4096) QTransform_identity))
                        coordinates) > tileSize
               then Inr (pointPainter qt d painter, rects, l)
               else if length (pointLines qt d force painter) = 1
               then (case processSimpleText qt (pointLines qt d force painter ! 0)
                            (QTransform_map
                               (QTransform_scale (real_of_int tileSize) (real_of_int tileSize)
                                  (QTransform_scale (1 / 4096) (1 / 4096) QTransform_identity))
                               coordinates)
                            (toInt qt (m_textHaloWidth (pt_layerStyle d)))
                            (toColor qt (m_textHaloColor (pt_layerStyle d)))
                            (pointFont qt d force painter) (pt_feature d) (pt_layerStyle d)
                            (pt_mapZoom d) (pt_vpZoom d) ox oy (rects, l) of
                       (rects', l') \<Rightarrow> Inr (pointPainter qt d painter, rects', l'))
               else (case processCompositeText qt (pointLines qt d force painter)
                            (QTransform_map
                               (QTransform_scale (real_of_int tileSize) (real_of_int tileSize)
                                  (QTransform_scale (1 / 4096) (1 / 4096) QTransform_identity))
                               coordinates)
                            (toInt qt (m_textHaloWidth (pt_layerStyle d)))
                            (toColor qt (m_textHaloColor (pt_layerStyle d)))
                            (pointFont qt d force painter) (pt_feature d) (pt_layerStyle d)
                            (pt_mapZoom d) (pt_vpZoom d) ox oy (rects, l) of
                       Inl e \<Rightarrow> Inl e
                     | Inr (rects', l') \<Rightarrow> Inr (pointPainter qt d painter, rects', l'))))"
  unfolding processSingleTileFeature_Point_def pointText_def pointFont_def pointLines_def
    pointPainter_def Let_def prod.case
  by (rule refl)

text \<open>
  The anchor is \<^verbatim>\<open>points().at(1)\<close> or \<^verbatim>\<open>points().at(0)\<close>; the read fails on a feature
  without points only.
\<close>

lemma anchorCoordinates_index:
  "pts \<noteq> [] \<Longrightarrow> anchorCoordinates pts = Inr (if length pts > 1 then pts ! 1 else pts ! 0)"
  by (cases pts) (simp_all add: anchorCoordinates_def)

lemma truncToInt_of_int: "truncToInt (real_of_int n) = n"
  by (simp add: truncToInt_def)

text \<open>
  The layout of a label of one line at the coordinate \<open>c\<close>: the text box, widened by the
  outline on both sides, has the size \<open>W \<times> H\<close>; the collision rectangle is this box centred
  at the tile origin plus \<open>c\<close>, and the text is drawn from the lower left corner of the box
  centred at \<open>c\<close>.
\<close>

lemma processSimpleText_centred:
  assumes W: "W = rw (toRect qt (boundingRect qt (addText qt f t))) + 2 * os"
    and H: "H = rh (toRect qt (boundingRect qt (addText qt f t))) + 2 * os"
    and r: "r = \<lparr>rx = truncToInt (real_of_int (ox + fst c) - real_of_int W / 2),
                 ry = truncToInt (real_of_int (oy + snd c) - real_of_int H / 2),
                 rw = W, rh = H\<rparr>"
  shows "\<exists>e. gt_position e = [(truncToInt (real_of_int (fst c) - real_of_int W / 2),
                               truncToInt (real_of_int (snd c) + real_of_int H / 2))]
           \<and> (\<forall>rects l. processSimpleText qt t c os oc f feat ls mz vz ox oy (rects, l)
                = (if isOverlapping qt r rects then (rects, l) else (rects @ [r], l @ [e])))"
proof -
  define b where "b = toRect qt (boundingRect qt (addText qt f t))"
  have w: "real_of_int (rw b) + 2 * real_of_int os = real_of_int W"
    and h: "real_of_int (rh b) + 2 * real_of_int os = real_of_int H"
    by (simp_all add: W H b_def)
  define e where "e =
     \<lparr>gt_tileOrigin = (ox, oy),
      gt_path = [QPainterPath_translate (toPointF c)
                  (QPainterPath_translate (- real_of_int W / 2, real_of_int H / 2)
                     (addText qt f t))],
      gt_text = [t],
      gt_position = [(truncToInt (real_of_int (fst c) - real_of_int W / 2),
                      truncToInt (real_of_int (snd c) + real_of_int H / 2))],
      gt_font = f,
      gt_textColor = getTextColor qt ls (AbstractLayerFeature.truncate feat) mz vz,
      gt_outlineSize = os,
      gt_outlineColor = oc,
      gt_boundingRect = toRect qt
        (QRectF_translate (toPointF c)
           (QRectF_translate (- real_of_int W / 2, real_of_int H / 2)
              ((toRectF b)\<lparr>fw := real_of_int W, fh := real_of_int H\<rparr>)))\<rparr>"
  have "gt_position e = [(truncToInt (real_of_int (fst c) - real_of_int W / 2),
                               truncToInt (real_of_int (snd c) + real_of_int H / 2))]"
    by (simp add: e_def)
  moreover have "processSimpleText qt t c os oc f feat ls mz vz ox oy (rects, l)
                = (if isOverlapping qt r rects then (rects, l) else (rects @ [r], l @ [e]))"
    for rects l
    unfolding processSimpleText_def Let_def prod.case b_def [symmetric]
    by (simp add: toRectF_def QRectF_translate_def w h r e_def truncToInt_of_int)
  ultimately show ?thesis by blast
qed

text \<open>
  The layout of a label of several lines at the coordinate \<open>c\<close>: the collision rectangle
  of a kept label is centred at the tile origin plus \<open>c\<close> (with the integer division of the
  source).
\<close>

lemma processCompositeText_centred:
  assumes "processCompositeText qt ts c os oc f feat ls mz vz ox oy (rects, l) = Inr (rects', l')"
    and "l' \<noteq> l"
  shows "\<exists>r e. rects' = rects @ [r] \<and> l' = l @ [e]
           \<and> rx r = ox + fst c - cdiv (rw r) 2 \<and> ry r = oy + snd c - cdiv (rh r) 2"
  using assms unfolding processCompositeText_def Let_def prod.case
  by (auto split: list.splits if_splits)

text \<open>
  Evaluation of point labels on the reference instance: the labels \<open>Oslo\<close> (one line) and
  \<open>Gamle Oslo Torg\<close> (wrapped into two lines).
\<close>

lemma namedPoint_sel:
  "pointText refQt (namedPoint ''Oslo'' pts) = ''Oslo''"
  "pointText refQt (namedPoint ''Gamle Oslo Torg'' pts) = ''Gamle Oslo Torg''"
  "pointFont refQt (namedPoint name pts) False painter
   = \<lparr>families = [''Open Sans Regular''], pixelSize = 16\<rparr>"
  "pointPainter refQt (namedPoint name pts) refPainter = refPainter"
  "toInt refQt (m_textHaloWidth (pt_layerStyle (namedPoint name pts))) = 1"
  "toColor refQt (m_textHaloColor (pt_layerStyle (namedPoint name pts))) = (255, 255, 255, 1)"
  "points (pt_feature (namedPoint name pts)) = pts"
  "pt_layerStyle (namedPoint name pts) = refStyle"
  "pt_mapZoom (namedPoint name pts) = 2"
  "pt_vpZoom (namedPoint name pts) = 2"
  by (simp_all add: pointText_def pointFont_def pointPainter_def ref_eval)

lemma namedPoint_lines:
  "pointLines refQt (namedPoint ''Oslo'' pts) False painter = [''Oslo'']"
  "pointLines refQt (namedPoint ''Gamle Oslo Torg'' pts) False painter = [''Gamle Oslo'', ''Torg'']"
  by (simp_all add: pointLines_def namedPoint_sel getCorrectedText_def refQt_sel refStyle_sel)

lemma oslo_box:
  "toRect refQt (boundingRect refQt (addText refQt
      \<lparr>families = [''Open Sans Regular''], pixelSize = 16\<rparr> ''Oslo''))
   = \<lparr>rx = 0, ry = - 16, rw = 64, rh = 16\<rparr>"
  by (simp add: ref_eval)

lemma oslo_simple_at:
  "processSimpleText refQt ''Oslo'' (256, 128) 1 (255, 255, 255, 1)
     \<lparr>families = [''Open Sans Regular''], pixelSize = 16\<rparr>
     (pt_feature (namedPoint ''Oslo'' pts)) refStyle 2 2 0 0 ([], [])
   = ([\<lparr>rx = 223, ry = 119, rw = 66, rh = 18\<rparr>],
      [\<lparr>gt_tileOrigin = (0, 0),
          gt_path =
            [[(MoveToElement, 223, 121), (LineToElement, 287, 121),
              (LineToElement, 287, 137), (LineToElement, 223, 137)]],
          gt_text = [''Oslo''], gt_position = [(223, 137)],
          gt_font = \<lparr>families = [''Open Sans Regular''], pixelSize = 16\<rparr>,
          gt_textColor = (0, 0, 0, 1), gt_outlineSize = 1,
          gt_outlineColor = (255, 255, 255, 1),
          gt_boundingRect = \<lparr>rx = 223, ry = 121, rw = 66, rh = 18\<rparr>\<rparr>])"
  "processSimpleText refQt ''Oslo'' (0, 128) 1 (255, 255, 255, 1)
     \<lparr>families = [''Open Sans Regular''], pixelSize = 16\<rparr>
     (pt_feature (namedPoint ''Oslo'' pts)) refStyle 2 2 0 0 ([], [])
   = ([\<lparr>rx = - 33, ry = 119, rw = 66, rh = 18\<rparr>],
      [\<lparr>gt_tileOrigin = (0, 0),
          gt_path =
            [[(MoveToElement, - 33, 121), (LineToElement, 31, 121),
              (LineToElement, 31, 137), (LineToElement, - 33, 137)]],
          gt_text = [''Oslo''], gt_position = [(- 33, 137)],
          gt_font = \<lparr>families = [''Open Sans Regular''], pixelSize = 16\<rparr>,
          gt_textColor = (0, 0, 0, 1), gt_outlineSize = 1,
          gt_outlineColor = (255, 255, 255, 1),
          gt_boundingRect = \<lparr>rx = - 33, ry = 121, rw = 66, rh = 18\<rparr>\<rparr>])"
  by (simp_all add: processSimpleText_def ref_eval)

lemma oslo_dispatch_at:
  "processSingleTileFeature_Point refQt (namedPoint ''Oslo'' [(4100, 2048)]) 256 0 0 False
     (refPainter, rects, l) =
   (case processSimpleText refQt ''Oslo'' (256, 128) 1 (255, 255, 255, 1)
     \<lparr>families = [''Open Sans Regular''], pixelSize = 16\<rparr>
     (pt_feature (namedPoint ''Oslo'' [(4100, 2048)])) refStyle 2 2 0 0 (rects, l) of
      (rects', l') \<Rightarrow> Inr (refPainter, rects', l'))"
  "processSingleTileFeature_Point refQt (namedPoint ''Oslo'' [(- 7, 2048)]) 256 0 0 False
     (refPainter, rects, l) =
   (case processSimpleText refQt ''Oslo'' (0, 128) 1 (255, 255, 255, 1)
     \<lparr>families = [''Open Sans Regular''], pixelSize = 16\<rparr>
     (pt_feature (namedPoint ''Oslo'' [(- 7, 2048)])) refStyle 2 2 0 0 (rects, l) of
      (rects', l') \<Rightarrow> Inr (refPainter, rects', l'))"
  by (simp_all add: point_unfold namedPoint_sel namedPoint_lines anchorCoordinates_def
      QTransform_map_def QTransform_mapF_def QTransform_scale_def QTransform_identity_def
      toPointF_def qRound_def truncToInt_def refQt_sel refStyle_sel)

lemma processCompositeText_two:
  "processCompositeText qt [t0, t1] c os oc f feat ls mz vz ox oy (rects, l) =
     (if isOverlapping qt
           \<lparr>rx = (ox + fst c)
                  - cdiv (rw (united qt
                       (toRect qt (boundingRect qt (fst (processCompositeText_line qt f os c 2 0 t0))))
                       (toRect qt (boundingRect qt (fst (processCompositeText_line qt f os c 2 1 t1))))))
                    2,
            ry = (oy + snd c)
                  - cdiv (rh (united qt
                       (toRect qt (boundingRect qt (fst (processCompositeText_line qt f os c 2 0 t0))))
                       (toRect qt (boundingRect qt (fst (processCompositeText_line qt f os c 2 1 t1))))))
                    2,
            rw = rw (united qt
                       (toRect qt (boundingRect qt (fst (processCompositeText_line qt f os c 2 0 t0))))
                       (toRect qt (boundingRect qt (fst (processCompositeText_line qt f os c 2 1 t1))))),
            rh = rh (united qt
                       (toRect qt (boundingRect qt (fst (processCompositeText_line qt f os c 2 0 t0))))
                       (toRect qt (boundingRect qt (fst (processCompositeText_line qt f os c 2 1 t1)))))\<rparr>
           rects
      then Inr (rects, l)
      else Inr (rects @
           [\<lparr>rx = (ox + fst c)
                  - cdiv (rw (united qt
                       (toRect qt (boundingRect qt (fst (processCompositeText_line qt f os c 2 0 t0))))
                       (toRect qt (boundingRect qt (fst (processCompositeText_line qt f os c 2 1 t1))))))
                    2,
            ry = (oy + snd c)
                  - cdiv (rh (united qt
                       (toRect qt (boundingRect qt (fst (processCompositeText_line qt f os c 2 0 t0))))
                       (toRect qt (boundingRect qt (fst (processCompositeText_line qt f os c 2 1 t1))))))
                    2,
            rw = rw (united qt
                       (toRect qt (boundingRect qt (fst (processCompositeText_line qt f os c 2 0 t0))))
                       (toRect qt (boundingRect qt (fst (processCompositeText_line qt f os c 2 1 t1))))),
            rh = rh (united qt
                       (toRect qt (boundingRect qt (fst (processCompositeText_line qt f os c 2 0 t0))))
                       (toRect qt (boundingRect qt (fst (processCompositeText_line qt f os c 2 1 t1)))))\<rparr>],
           l @
           [\<lparr>gt_tileOrigin = (ox, oy),
             gt_path = [fst (processCompositeText_line qt f os c 2 0 t0),
                        fst (processCompositeText_line qt f os c 2 1 t1)],
             gt_text = [t0, t1],
             gt_position = [snd (processCompositeText_line qt f os c 2 0 t0),
                            snd (processCompositeText_line qt f os c 2 1 t1)],
             gt_font = f,
             gt_textColor = getTextColor qt ls (AbstractLayerFeature.truncate feat) mz vz,
             gt_outlineSize = os,
             gt_outlineColor = oc,
             gt_boundingRect = united qt
                       (toRect qt (boundingRect qt (fst (processCompositeText_line qt f os c 2 0 t0))))
                       (toRect qt (boundingRect qt (fst (processCompositeText_line qt f os c 2 1 t1))))\<rparr>]))"
proof -
  have n: "length [t0, t1] = 2" by simp
  have z: "zip [0..<2] [t0, t1] = [(0, t0), (1, t1)]"
    by (simp add: numeral_2_eq_2)
  show ?thesis
    unfolding processCompositeText_def Let_def prod.case n z
    by simp
qed

lemma gamle_lines:
  "processCompositeText_line refQt \<lparr>families = [''Open Sans Regular''], pixelSize = 16\<rparr> 1
     (128, 128) 2 0 ''Gamle Oslo''
   = ([(MoveToElement, 47, 105), (LineToElement, 207, 105),
       (LineToElement, 207, 121), (LineToElement, 47, 121)], (47, 121))"
  "processCompositeText_line refQt \<lparr>families = [''Open Sans Regular''], pixelSize = 16\<rparr> 1
     (128, 128) 2 1 ''Torg''
   = ([(MoveToElement, 95, 121), (LineToElement, 159, 121),
       (LineToElement, 159, 137), (LineToElement, 95, 137)], (95, 137))"
  by (simp_all add: processCompositeText_line_def ref_eval)

lemma gamle_composite:
  "processCompositeText refQt [''Gamle Oslo'', ''Torg''] (128, 128) 1 (255, 255, 255, 1)
     \<lparr>families = [''Open Sans Regular''], pixelSize = 16\<rparr>
     (pt_feature (namedPoint ''Gamle Oslo Torg'' pts)) refStyle 2 2 0 0 ([], [])
   = Inr ([\<lparr>rx = 48, ry = 112, rw = 160, rh = 32\<rparr>],
      [\<lparr>gt_tileOrigin = (0, 0),
          gt_path =
            [[(MoveToElement, 47, 105), (LineToElement, 207, 105),
              (LineToElement, 207, 121), (LineToElement, 47, 121)],
             [(MoveToElement, 95, 121), (LineToElement, 159, 121),
              (LineToElement, 159, 137), (LineToElement, 95, 137)]],
          gt_text = [''Gamle Oslo'', ''Torg''],
          gt_position = [(47, 121), (95, 137)],
          gt_font = \<lparr>families = [''Open Sans Regular''], pixelSize = 16\<rparr>,
          gt_textColor = (0, 0, 0, 1), gt_outlineSize = 1,
          gt_outlineColor = (255, 255, 255, 1),
          gt_boundingRect = \<lparr>rx = 47, ry = 105, rw = 160, rh = 32\<rparr>\<rparr>])"
  unfolding processCompositeText_two gamle_lines
  by (simp add: ref_eval)

lemma gamle_dispatch:
  "processSingleTileFeature_Point refQt
     (namedPoint ''Gamle Oslo Torg'' [(0, 0), (2048, 2048), (4096, 4096)]) 256 0 0 False
     (refPainter, [], []) =
   (case processCompositeText refQt [''Gamle Oslo'', ''Torg''] (128, 128) 1 (255, 255, 255, 1)
     \<lparr>families = [''Open Sans Regular''], pixelSize = 16\<rparr>
     (pt_feature (namedPoint ''Gamle Oslo Torg'' [(0, 0), (2048, 2048), (4096, 4096)]))
     refStyle 2 2 0 0 ([], []) of
      Inl e \<Rightarrow> Inl e
    | Inr (rects', l') \<Rightarrow> Inr (refPainter, rects', l'))"
  unfolding point_unfold namedPoint_sel namedPoint_lines
  by (simp add: anchorCoordinates_def
      QTransform_map_def QTransform_mapF_def QTransform_scale_def QTransform_identity_def
      toPointF_def qRound_def truncToInt_def refQt_sel refStyle_sel cong: sum.case_cong)

lemma gamle_kept:
  "processSingleTileFeature_Point refQt
     (namedPoint ''Gamle Oslo Torg'' [(0, 0), (2048, 2048), (4096, 4096)]) 256 0 0 False
     (refPainter, [], []) =
   Inr (refPainter, [\<lparr>rx = 48, ry = 112, rw = 160, rh = 32\<rparr>],
      [\<lparr>gt_tileOrigin = (0, 0),
          gt_path =
            [[(MoveToElement, 47, 105), (LineToElement, 207, 105),
              (LineToElement, 207, 121), (LineToElement, 47, 121)],
             [(MoveToElement, 95, 121), (LineToElement, 159, 121),
              (LineToElement, 159, 137), (LineToElement, 95, 137)]],
          gt_text = [''Gamle Oslo'', ''Torg''],
          gt_position = [(47, 121), (95, 137)],
          gt_font = \<lparr>families = [''Open Sans Regular''], pixelSize = 16\<rparr>,
          gt_textColor = (0, 0, 0, 1), gt_outlineSize = 1,
          gt_outlineColor = (255, 255, 255, 1),
          gt_boundingRect = \<lparr>rx = 47, ry = 105, rw = 160, rh = 32\<rparr>\<rparr>])"
  by (simp only: gamle_dispatch gamle_composite sum.case prod.case)

text \<open>
  C7 (empty text). When the resolved text content of a point feature is the empty string,
  \<^verbatim>\<open>processSingleTileFeature_Point\<close> returns at once: the painter, the collision rectangles
  and the text list are unchanged. When that of a line feature is empty (its upper case is
  then empty too), \<^verbatim>\<open>processSingleTileFeature_Point_Curved\<close> returns at once: the collision
  rectangles and the curved-text list are unchanged.
\<close>

theorem empty_text_is_skipped:
  "(getTextContent qt (pt_layerStyle d) (AbstractLayerFeature.truncate (pt_feature d))
      (pt_mapZoom d) (pt_vpZoom d) = [] \<longrightarrow>
    processSingleTileFeature_Point qt d tileSize tileOriginX tileOriginY force
      (painter, rects, vpTextList) = Inr (painter, rects, vpTextList))
   \<and> (getTextContent qt (cv_layerStyle c) (AbstractLayerFeature.truncate (cv_feature c))
      (cv_mapZoom c) (cv_vpZoom c) = [] \<longrightarrow>
    processSingleTileFeature_Point_Curved qt c tileSize tileOriginX tileOriginY
      (rects, vpCurvedTextList) = (rects, vpCurvedTextList))"
  by (simp add: processSingleTileFeature_Point_def processSingleTileFeature_Point_Curved_def
      toUpper_def)

text \<open>
  A point feature and a line feature whose \<open>name\<close> is the empty string, processed with one
  rectangle already kept.
\<close>

theorem empty_text_is_skipped_witness:
  "getTextContent refQt (pt_layerStyle (namedPoint [] [(2048, 2048)]))
      (AbstractLayerFeature.truncate (pt_feature (namedPoint [] [(2048, 2048)])))
      (pt_mapZoom (namedPoint [] [(2048, 2048)])) (pt_vpZoom (namedPoint [] [(2048, 2048)])) = []
   \<and> processSingleTileFeature_Point refQt (namedPoint [] [(2048, 2048)]) 256 0 0 False
        (refPainter, [\<lparr>rx = 95, ry = 119, rw = 66, rh = 18\<rparr>], [])
      = Inr (refPainter, [\<lparr>rx = 95, ry = 119, rw = 66, rh = 18\<rparr>], [])
   \<and> getTextContent refQt (cv_layerStyle (namedLine [] [(0, 0), (200, 0)]))
      (AbstractLayerFeature.truncate (cv_feature (namedLine [] [(0, 0), (200, 0)])))
      (cv_mapZoom (namedLine [] [(0, 0), (200, 0)])) (cv_vpZoom (namedLine [] [(0, 0), (200, 0)])) = []
   \<and> processSingleTileFeature_Point_Curved refQt (namedLine [] [(0, 0), (200, 0)]) 256 0 0
        ([\<lparr>rx = 95, ry = 119, rw = 66, rh = 18\<rparr>], [])
      = ([\<lparr>rx = 95, ry = 119, rw = 66, rh = 18\<rparr>], [])"
proof -
  have p: "getTextContent refQt (pt_layerStyle (namedPoint [] [(2048, 2048)]))
      (AbstractLayerFeature.truncate (pt_feature (namedPoint [] [(2048, 2048)])))
      (pt_mapZoom (namedPoint [] [(2048, 2048)])) (pt_vpZoom (namedPoint [] [(2048, 2048)])) = []"
    by (simp add: ref_getters)
  have c: "getTextContent refQt (cv_layerStyle (namedLine [] [(0, 0), (200, 0)]))
      (AbstractLayerFeature.truncate (cv_feature (namedLine [] [(0, 0), (200, 0)])))
      (cv_mapZoom (namedLine [] [(0, 0), (200, 0)])) (cv_vpZoom (namedLine [] [(0, 0), (200, 0)])) = []"
    by (simp add: ref_getters)
  from p c empty_text_is_skipped [of refQt "namedPoint [] [(2048, 2048)]" 256 0 0 False
      refPainter "[\<lparr>rx = 95, ry = 119, rw = 66, rh = 18\<rparr>]" "[]"
      "namedLine [] [(0, 0), (200, 0)]" "[]"]
  show ?thesis by blast
qed

text \<open>
  C8 (anchor of a point feature). Let \<open>a\<close> be the point at index 1 of a point feature with
  more than one point, and the point at index 0 of a feature with exactly one point, and let
  \<open>q\<close> be \<open>a\<close> after the \<open>1/4096 \<cdot> tileSize\<close> transform. For a feature with a non-empty text
  and \<open>q\<close> within the tile, \<^verbatim>\<open>processSingleTileFeature_Point\<close> lays the label out at \<open>q\<close>: it
  is the coordinate passed to \<^verbatim>\<open>processSimpleText\<close> (one line) or to \<^verbatim>\<open>processCompositeText\<close>
  (several lines). A label of one line that overlaps no kept rectangle is appended with the
  collision rectangle \<open>r\<close>, the text box of size \<open>W \<times> H\<close> centred at the tile origin plus
  \<open>q\<close>, and with the drawing position at the lower left corner of the box centred at \<open>q\<close>;
  a kept label of several lines has its collision rectangle centred at the tile origin plus
  \<open>q\<close>.
\<close>

theorem point_label_is_laid_out_at_index_one_or_zero:
  assumes pts: "points (pt_feature d) = pts" and ne: "pts \<noteq> []"
    and a: "a = (if length pts > 1 then pts ! 1 else pts ! 0)"
    and q: "q = (qRound (real_of_int (fst a) * real_of_int tileSize / 4096),
                 qRound (real_of_int (snd a) * real_of_int tileSize / 4096))"
    and content: "pointText qt d \<noteq> []"
    and inside: "0 \<le> fst q \<and> fst q \<le> tileSize \<and> 0 \<le> snd q \<and> snd q \<le> tileSize"
    and lines: "lines = pointLines qt d force painter"
    and font: "font = pointFont qt d force painter"
    and outline: "outline = toInt qt (m_textHaloWidth (pt_layerStyle d))"
    and W: "W = rw (toRect qt (boundingRect qt (addText qt font (lines ! 0)))) + 2 * outline"
    and H: "H = rh (toRect qt (boundingRect qt (addText qt font (lines ! 0)))) + 2 * outline"
    and r: "r = \<lparr>rx = truncToInt (real_of_int (tileOriginX + fst q) - real_of_int W / 2),
                 ry = truncToInt (real_of_int (tileOriginY + snd q) - real_of_int H / 2),
                 rw = W, rh = H\<rparr>"
  shows "processSingleTileFeature_Point qt d tileSize tileOriginX tileOriginY force
           (painter, rects, vpTextList)
         = (if length lines = 1
            then (case processSimpleText qt (lines ! 0) q outline
                         (toColor qt (m_textHaloColor (pt_layerStyle d))) font (pt_feature d)
                         (pt_layerStyle d) (pt_mapZoom d) (pt_vpZoom d) tileOriginX tileOriginY
                         (rects, vpTextList) of
                    (rects', l') \<Rightarrow> Inr (pointPainter qt d painter, rects', l'))
            else (case processCompositeText qt lines q outline
                         (toColor qt (m_textHaloColor (pt_layerStyle d))) font (pt_feature d)
                         (pt_layerStyle d) (pt_mapZoom d) (pt_vpZoom d) tileOriginX tileOriginY
                         (rects, vpTextList) of
                    Inl e \<Rightarrow> Inl e
                  | Inr (rects', l') \<Rightarrow> Inr (pointPainter qt d painter, rects', l')))
       \<and> (length lines = 1 \<and> \<not> isOverlapping qt r rects \<longrightarrow>
            (\<exists>e. processSingleTileFeature_Point qt d tileSize tileOriginX tileOriginY force
                    (painter, rects, vpTextList)
                  = Inr (pointPainter qt d painter, rects @ [r], vpTextList @ [e])
                \<and> gt_position e
                  = [(truncToInt (real_of_int (fst q) - real_of_int W / 2),
                      truncToInt (real_of_int (snd q) + real_of_int H / 2))]))
       \<and> (length lines \<noteq> 1 \<longrightarrow>
            (\<forall>painter' rects' l'.
               processSingleTileFeature_Point qt d tileSize tileOriginX tileOriginY force
                 (painter, rects, vpTextList) = Inr (painter', rects', l')
               \<and> l' \<noteq> vpTextList \<longrightarrow>
               (\<exists>r' e. rects' = rects @ [r'] \<and> l' = vpTextList @ [e]
                  \<and> rx r' = tileOriginX + fst q - cdiv (rw r') 2
                  \<and> ry r' = tileOriginY + snd q - cdiv (rh r') 2)))"
proof -
  let ?res = "processSingleTileFeature_Point qt d tileSize tileOriginX tileOriginY force
           (painter, rects, vpTextList)"
  have anc: "anchorCoordinates (points (pt_feature d)) = Inr a"
    unfolding pts a by (rule anchorCoordinates_index [OF ne])
  have mapped: "QTransform_map
       (QTransform_scale (real_of_int tileSize) (real_of_int tileSize)
          (QTransform_scale (1 / 4096) (1 / 4096) QTransform_identity)) a = q"
    using tile_transform_map [of tileSize "fst a" "snd a"] by (simp add: q)
  have ins: "\<not> (fst q < 0 \<or> fst q > tileSize \<or> snd q < 0 \<or> snd q > tileSize)"
    using inside by auto
  have disp: "?res
         = (if length lines = 1
            then (case processSimpleText qt (lines ! 0) q outline
                         (toColor qt (m_textHaloColor (pt_layerStyle d))) font (pt_feature d)
                         (pt_layerStyle d) (pt_mapZoom d) (pt_vpZoom d) tileOriginX tileOriginY
                         (rects, vpTextList) of
                    (rects', l') \<Rightarrow> Inr (pointPainter qt d painter, rects', l'))
            else (case processCompositeText qt lines q outline
                         (toColor qt (m_textHaloColor (pt_layerStyle d))) font (pt_feature d)
                         (pt_layerStyle d) (pt_mapZoom d) (pt_vpZoom d) tileOriginX tileOriginY
                         (rects, vpTextList) of
                    Inl e \<Rightarrow> Inl e
                  | Inr (rects', l') \<Rightarrow> Inr (pointPainter qt d painter, rects', l')))"
    unfolding point_unfold anc sum.case mapped lines font outline
    using content ins by simp
  have simple: "\<exists>e. ?res = Inr (pointPainter qt d painter, rects @ [r], vpTextList @ [e])
                \<and> gt_position e
                  = [(truncToInt (real_of_int (fst q) - real_of_int W / 2),
                      truncToInt (real_of_int (snd q) + real_of_int H / 2))]"
    if one: "length lines = 1" and free: "\<not> isOverlapping qt r rects"
  proof -
    from processSimpleText_centred [OF W H r]
    obtain e where pos: "gt_position e
                  = [(truncToInt (real_of_int (fst q) - real_of_int W / 2),
                      truncToInt (real_of_int (snd q) + real_of_int H / 2))]"
      and eq: "\<And>rects l. processSimpleText qt (lines ! 0) q outline
                 (toColor qt (m_textHaloColor (pt_layerStyle d))) font (pt_feature d)
                 (pt_layerStyle d) (pt_mapZoom d) (pt_vpZoom d) tileOriginX tileOriginY (rects, l)
               = (if isOverlapping qt r rects then (rects, l) else (rects @ [r], l @ [e]))"
      by blast
    have "?res = Inr (pointPainter qt d painter, rects @ [r], vpTextList @ [e])"
      unfolding disp by (simp add: one eq free)
    with pos show ?thesis by blast
  qed
  have composite: "\<exists>r' e. rects' = rects @ [r'] \<and> l' = vpTextList @ [e]
                  \<and> rx r' = tileOriginX + fst q - cdiv (rw r') 2
                  \<and> ry r' = tileOriginY + snd q - cdiv (rh r') 2"
    if more: "length lines \<noteq> 1" and res: "?res = Inr (painter', rects', l')"
      and kept: "l' \<noteq> vpTextList" for painter' rects' l'
  proof -
    from res [unfolded disp] more
    have "processCompositeText qt lines q outline
            (toColor qt (m_textHaloColor (pt_layerStyle d))) font (pt_feature d)
            (pt_layerStyle d) (pt_mapZoom d) (pt_vpZoom d) tileOriginX tileOriginY
            (rects, vpTextList) = Inr (rects', l')"
      by (auto split: sum.splits)
    from processCompositeText_centred [OF this kept] show ?thesis .
  qed
  from disp simple composite show ?thesis by blast
qed

text \<open>
  A feature with three points: the label \<open>Oslo\<close> is centred at \<open>(128, 128)\<close>, the image of
  the point \<open>(2048, 2048)\<close> at index 1, on a tile of 256 pixels. A feature with one point: the
  label is centred at \<open>(64, 192)\<close>, the image of its point \<open>(1024, 3072)\<close>. A label of two
  lines on the feature with three points: its rectangle is centred at \<open>(128, 128)\<close>.
\<close>

theorem point_label_is_laid_out_at_index_one_or_zero_witness:
  "[(0, 0), (2048, 2048), (4096, 4096) :: QPoint] ! 1 = (2048, 2048)
   \<and> qRound (real_of_int 2048 * real_of_int 256 / 4096) = 128
   \<and> pointLines refQt (namedPoint ''Oslo'' [(0, 0), (2048, 2048), (4096, 4096)]) False refPainter
      = [''Oslo'']
   \<and> (\<exists>e. processSingleTileFeature_Point refQt
              (namedPoint ''Oslo'' [(0, 0), (2048, 2048), (4096, 4096)]) 256 0 0 False
              (refPainter, [], [])
            = Inr (refPainter, [\<lparr>rx = 95, ry = 119, rw = 66, rh = 18\<rparr>], [e])
          \<and> gt_position e = [(95, 137)])
   \<and> [(1024, 3072) :: QPoint] ! 0 = (1024, 3072)
   \<and> qRound (real_of_int 1024 * real_of_int 256 / 4096) = 64
   \<and> qRound (real_of_int 3072 * real_of_int 256 / 4096) = 192
   \<and> (\<exists>e. processSingleTileFeature_Point refQt (namedPoint ''Oslo'' [(1024, 3072)]) 256 0 0 False
              (refPainter, [], [])
            = Inr (refPainter, [\<lparr>rx = 31, ry = 183, rw = 66, rh = 18\<rparr>], [e])
          \<and> gt_position e = [(31, 201)])
   \<and> pointLines refQt (namedPoint ''Gamle Oslo Torg'' [(0, 0), (2048, 2048), (4096, 4096)])
        False refPainter
      = [''Gamle Oslo'', ''Torg'']
   \<and> (\<exists>r' e. processSingleTileFeature_Point refQt
              (namedPoint ''Gamle Oslo Torg'' [(0, 0), (2048, 2048), (4096, 4096)]) 256 0 0 False
              (refPainter, [], [])
            = Inr (refPainter, [r'], [e])
          \<and> rx r' = 128 - cdiv (rw r') 2 \<and> ry r' = 128 - cdiv (rh r') 2)"
proof -
  let ?F = "\<lparr>families = [''Open Sans Regular''], pixelSize = 16\<rparr>"
  let ?p3 = "[(0, 0), (2048, 2048), (4096, 4096) :: QPoint]"
  let ?p1 = "[(1024, 3072) :: QPoint]"
  let ?d3 = "namedPoint ''Oslo'' ?p3"
  let ?d1 = "namedPoint ''Oslo'' ?p1"
  let ?dc = "namedPoint ''Gamle Oslo Torg'' ?p3"
  let ?q = "(128 :: int, 128 :: int)"
  let ?q1 = "(64 :: int, 192 :: int)"
  let ?r3 = "\<lparr>rx = 95, ry = 119, rw = 66, rh = 18\<rparr>"
  let ?r1 = "\<lparr>rx = 31, ry = 183, rw = 66, rh = 18\<rparr>"
  let ?rc = "\<lparr>rx = 47, ry = 119, rw = 162, rh = 18\<rparr>"
  have i1: "?p3 ! 1 = (2048, 2048)" by simp
  have i0: "?p1 ! 0 = (1024, 3072)" by simp
  have q128: "qRound (real_of_int 2048 * real_of_int 256 / 4096) = 128"
    and q64: "qRound (real_of_int 1024 * real_of_int 256 / 4096) = 64"
    and q192: "qRound (real_of_int 3072 * real_of_int 256 / 4096) = 192"
    by (simp_all add: qRound_def truncToInt_def)
  have l3: "pointLines refQt ?d3 False refPainter = [''Oslo'']"
    and l1: "pointLines refQt ?d1 False refPainter = [''Oslo'']"
    and lc: "pointLines refQt ?dc False refPainter = [''Gamle Oslo'', ''Torg'']"
    by (simp_all add: namedPoint_lines)
  have ne3: "?p3 \<noteq> []" and ne1: "?p1 \<noteq> []" by simp_all
  have a3: "(2048, 2048) = (if length ?p3 > 1 then ?p3 ! 1 else ?p3 ! 0)"
    and a1: "(1024, 3072) = (if length ?p1 > 1 then ?p1 ! 1 else ?p1 ! 0)"
    by simp_all
  have m3: "?q = (qRound (real_of_int (fst (2048 :: int, 2048 :: int)) * real_of_int 256 / 4096),
                  qRound (real_of_int (snd (2048 :: int, 2048 :: int)) * real_of_int 256 / 4096))"
    and m1: "?q1 = (qRound (real_of_int (fst (1024 :: int, 3072 :: int)) * real_of_int 256 / 4096),
                    qRound (real_of_int (snd (1024 :: int, 3072 :: int)) * real_of_int 256 / 4096))"
    by (simp_all add: qRound_def truncToInt_def)
  have in3: "0 \<le> fst ?q \<and> fst ?q \<le> 256 \<and> 0 \<le> snd ?q \<and> snd ?q \<le> 256"
    and in1: "0 \<le> fst ?q1 \<and> fst ?q1 \<le> 256 \<and> 0 \<le> snd ?q1 \<and> snd ?q1 \<le> 256"
    by simp_all
  have W: "66 = rw (toRect refQt (boundingRect refQt (addText refQt ?F ([''Oslo''] ! 0)))) + 2 * 1"
    and H: "18 = rh (toRect refQt (boundingRect refQt (addText refQt ?F ([''Oslo''] ! 0)))) + 2 * 1"
    by (simp_all add: oslo_box)
  have Wc: "162 = rw (toRect refQt (boundingRect refQt
                    (addText refQt ?F ([''Gamle Oslo'', ''Torg''] ! 0)))) + 2 * 1"
    and Hc: "18 = rh (toRect refQt (boundingRect refQt
                    (addText refQt ?F ([''Gamle Oslo'', ''Torg''] ! 0)))) + 2 * 1"
    by (simp_all add: ref_eval)
  have r3: "?r3 = \<lparr>rx = truncToInt (real_of_int (0 + fst ?q) - real_of_int 66 / 2),
                    ry = truncToInt (real_of_int (0 + snd ?q) - real_of_int 18 / 2),
                    rw = 66, rh = 18\<rparr>"
    and r1: "?r1 = \<lparr>rx = truncToInt (real_of_int (0 + fst ?q1) - real_of_int 66 / 2),
                    ry = truncToInt (real_of_int (0 + snd ?q1) - real_of_int 18 / 2),
                    rw = 66, rh = 18\<rparr>"
    and rc: "?rc = \<lparr>rx = truncToInt (real_of_int (0 + fst ?q) - real_of_int 162 / 2),
                    ry = truncToInt (real_of_int (0 + snd ?q) - real_of_int 18 / 2),
                    rw = 162, rh = 18\<rparr>"
    by (simp_all add: truncToInt_def)
  have three: "\<exists>e. processSingleTileFeature_Point refQt ?d3 256 0 0 False (refPainter, [], [])
            = Inr (refPainter, [?r3], [e])
          \<and> gt_position e = [(95, 137)]"
  proof -
    note t = point_label_is_laid_out_at_index_one_or_zero
      [where rects = "[]" and vpTextList = "[]",
        OF namedPoint_sel(7) ne3 a3 m3 _ in3 l3 [symmetric] namedPoint_sel(3) [symmetric]
          namedPoint_sel(5) [symmetric] W H r3]
    have c: "pointText refQt ?d3 \<noteq> []" by (simp add: namedPoint_sel)
    have "length [''Oslo''] = 1 \<and> \<not> isOverlapping refQt ?r3 []" by simp
    with t [OF c, THEN conjunct2, THEN conjunct1]
    show ?thesis by (simp add: namedPoint_sel truncToInt_def)
  qed
  have single: "\<exists>e. processSingleTileFeature_Point refQt ?d1 256 0 0 False (refPainter, [], [])
            = Inr (refPainter, [?r1], [e])
          \<and> gt_position e = [(31, 201)]"
  proof -
    note t = point_label_is_laid_out_at_index_one_or_zero
      [where rects = "[]" and vpTextList = "[]",
        OF namedPoint_sel(7) ne1 a1 m1 _ in1 l1 [symmetric] namedPoint_sel(3) [symmetric]
          namedPoint_sel(5) [symmetric] W H r1]
    have c: "pointText refQt ?d1 \<noteq> []" by (simp add: namedPoint_sel)
    have "length [''Oslo''] = 1 \<and> \<not> isOverlapping refQt ?r1 []" by simp
    with t [OF c, THEN conjunct2, THEN conjunct1]
    show ?thesis by (simp add: namedPoint_sel truncToInt_def)
  qed
  have wrapped: "\<exists>r' e. processSingleTileFeature_Point refQt ?dc 256 0 0 False (refPainter, [], [])
            = Inr (refPainter, [r'], [e])
          \<and> rx r' = 128 - cdiv (rw r') 2 \<and> ry r' = 128 - cdiv (rh r') 2"
  proof -
    note t = point_label_is_laid_out_at_index_one_or_zero
      [where rects = "[]" and vpTextList = "[]",
        OF namedPoint_sel(7) ne3 a3 m3 _ in3 lc [symmetric] namedPoint_sel(3) [symmetric]
          namedPoint_sel(5) [symmetric] Wc Hc rc]
    have c: "pointText refQt ?dc \<noteq> []" by (simp add: namedPoint_sel)
    have "length [''Gamle Oslo'', ''Torg''] \<noteq> 1" by simp
    with t [OF c, THEN conjunct2, THEN conjunct2]
    have "\<forall>painter' rects' l'.
               processSingleTileFeature_Point refQt ?dc 256 0 0 False (refPainter, [], [])
                 = Inr (painter', rects', l') \<and> l' \<noteq> [] \<longrightarrow>
               (\<exists>r' e. rects' = [] @ [r'] \<and> l' = [] @ [e]
                  \<and> rx r' = 0 + fst ?q - cdiv (rw r') 2
                  \<and> ry r' = 0 + snd ?q - cdiv (rh r') 2)"
      by blast
    with gamle_kept show ?thesis by auto
  qed
  from i1 q128 l3 three i0 q64 q192 single lc wrapped show ?thesis by blast
qed

text \<open>
  C9, as the claim states it, fails: the transformed anchor is a \<^verbatim>\<open>QPoint\<close>, and
  \<^verbatim>\<open>QTransform::map\<close> rounds its coordinates to the nearest integer before they are compared
  with the tile. On a tile of 256 pixels the anchor \<open>x = 4100\<close> is transformed to \<open>256.25\<close>,
  greater than the tile size, and rounded to \<open>256\<close>; the anchor \<open>x = -7\<close> is transformed to
  \<open>-0.4375\<close>, less than 0, and rounded to \<open>0\<close>. Both labels are kept.
\<close>

theorem anchor_a_quarter_pixel_outside_is_kept:
  "anchorCoordinates (points (pt_feature (namedPoint ''Oslo'' [(4100, 2048)]))) = Inr (4100, 2048)
   \<and> real_of_int 4100 * real_of_int 256 / 4096 = 1025 / 4
   \<and> (1025 / 4 :: real) > real_of_int 256
   \<and> processSingleTileFeature_Point refQt (namedPoint ''Oslo'' [(4100, 2048)]) 256 0 0 False
        (refPainter, [], [])
      = Inr (refPainter, [\<lparr>rx = 223, ry = 119, rw = 66, rh = 18\<rparr>],
          [\<lparr>gt_tileOrigin = (0, 0),
            gt_path =
              [[(MoveToElement, 223, 121), (LineToElement, 287, 121),
                (LineToElement, 287, 137), (LineToElement, 223, 137)]],
            gt_text = [''Oslo''], gt_position = [(223, 137)],
            gt_font = \<lparr>families = [''Open Sans Regular''], pixelSize = 16\<rparr>,
            gt_textColor = (0, 0, 0, 1), gt_outlineSize = 1,
            gt_outlineColor = (255, 255, 255, 1),
            gt_boundingRect = \<lparr>rx = 223, ry = 121, rw = 66, rh = 18\<rparr>\<rparr>])
   \<and> anchorCoordinates (points (pt_feature (namedPoint ''Oslo'' [(- 7, 2048)]))) = Inr (- 7, 2048)
   \<and> real_of_int (- 7) * real_of_int 256 / 4096 = - 7 / 16
   \<and> (- 7 / 16 :: real) < 0
   \<and> processSingleTileFeature_Point refQt (namedPoint ''Oslo'' [(- 7, 2048)]) 256 0 0 False
        (refPainter, [], [])
      = Inr (refPainter, [\<lparr>rx = - 33, ry = 119, rw = 66, rh = 18\<rparr>],
          [\<lparr>gt_tileOrigin = (0, 0),
            gt_path =
              [[(MoveToElement, - 33, 121), (LineToElement, 31, 121),
                (LineToElement, 31, 137), (LineToElement, - 33, 137)]],
            gt_text = [''Oslo''], gt_position = [(- 33, 137)],
            gt_font = \<lparr>families = [''Open Sans Regular''], pixelSize = 16\<rparr>,
            gt_textColor = (0, 0, 0, 1), gt_outlineSize = 1,
            gt_outlineColor = (255, 255, 255, 1),
            gt_boundingRect = \<lparr>rx = - 33, ry = 121, rw = 66, rh = 18\<rparr>\<rparr>])"
proof -
  have a1: "anchorCoordinates (points (pt_feature (namedPoint ''Oslo'' [(4100, 2048)])))
            = Inr (4100, 2048)"
    by (simp add: namedPoint_sel anchorCoordinates_def)
  have a2: "anchorCoordinates (points (pt_feature (namedPoint ''Oslo'' [(- 7, 2048)])))
            = Inr (- 7, 2048)"
    by (simp add: namedPoint_sel anchorCoordinates_def)
  have n1: "real_of_int 4100 * real_of_int 256 / 4096 = 1025 / 4" by simp
  have n2: "(1025 / 4 :: real) > real_of_int 256" by simp
  have n3: "real_of_int (- 7) * real_of_int 256 / 4096 = - 7 / 16" by simp
  have n4: "(- 7 / 16 :: real) < 0" by simp
  note k1 = oslo_dispatch_at(1) [of "[]" "[]", unfolded oslo_simple_at prod.case]
  note k2 = oslo_dispatch_at(2) [of "[]" "[]", unfolded oslo_simple_at prod.case]
  from a1 n1 n2 k1 a2 n3 n4 k2 show ?thesis by blast
qed

text \<open>
  C9, amended. Let \<open>(x', y')\<close> be the anchor of a point feature after the
  \<open>1/4096 \<cdot> tileSize\<close> transform, rounded to the nearest integer (the transformed anchor is
  a \<^verbatim>\<open>QPoint\<close>). If \<open>x'\<close> or \<open>y'\<close> is less than 0 or greater than \<open>tileSize\<close>,
  \<^verbatim>\<open>processSingleTileFeature_Point\<close> returns with the collision rectangles and the text list
  unchanged (only the painter may have been set up).
\<close>

theorem anchor_outside_tile_is_dropped:
  assumes anchor: "anchorCoordinates (points (pt_feature d)) = Inr (x, y)"
    and mapped: "x' = qRound (real_of_int x * real_of_int tileSize / 4096)"
                "y' = qRound (real_of_int y * real_of_int tileSize / 4096)"
    and outside: "x' < 0 \<or> x' > tileSize \<or> y' < 0 \<or> y' > tileSize"
  shows "\<exists>painter'.
           processSingleTileFeature_Point qt d tileSize tileOriginX tileOriginY force
             (painter, rects, vpTextList) = Inr (painter', rects, vpTextList)"
proof (cases "getTextContent qt (pt_layerStyle d) (AbstractLayerFeature.truncate (pt_feature d))
      (pt_mapZoom d) (pt_vpZoom d) = []")
  case True
  then show ?thesis by (simp add: processSingleTileFeature_Point_def)
next
  case False
  from outside show ?thesis
    unfolding mapped
    by (simp add: processSingleTileFeature_Point_def False anchor tile_transform_map Let_def)
qed

text \<open>
  An anchor at \<open>x = 5000\<close> of the 4096 tile units, on a tile of 256 pixels: \<open>x' = 313 > 256\<close>.
\<close>

theorem anchor_outside_tile_is_dropped_witness:
  "anchorCoordinates (points (pt_feature (namedPoint ''Oslo'' [(5000, 2048)]))) = Inr (5000, 2048)
   \<and> qRound (real_of_int 5000 * real_of_int 256 / 4096) = 313
   \<and> (313::int) > 256
   \<and> (\<exists>painter'. processSingleTileFeature_Point refQt (namedPoint ''Oslo'' [(5000, 2048)]) 256 0 0
         False (refPainter, [\<lparr>rx = 95, ry = 119, rw = 66, rh = 18\<rparr>], [])
       = Inr (painter', [\<lparr>rx = 95, ry = 119, rw = 66, rh = 18\<rparr>], []))"
proof -
  have a: "anchorCoordinates (points (pt_feature (namedPoint ''Oslo'' [(5000, 2048)])))
           = Inr (5000, 2048)"
    by (simp add: namedPoint_def anchorCoordinates_def)
  have x: "qRound (real_of_int 5000 * real_of_int 256 / 4096) = 313"
    by (simp add: qRound_def truncToInt_def)
  have o: "(313::int) < 0 \<or> (313::int) > 256
           \<or> qRound (real_of_int 2048 * real_of_int 256 / 4096) < 0
           \<or> qRound (real_of_int 2048 * real_of_int 256 / 4096) > 256"
    by simp
  from anchor_outside_tile_is_dropped [OF a x [symmetric] refl o]
  have "\<exists>painter'. processSingleTileFeature_Point refQt (namedPoint ''Oslo'' [(5000, 2048)]) 256 0 0
         False (refPainter, [\<lparr>rx = 95, ry = 119, rw = 66, rh = 18\<rparr>], [])
       = Inr (painter', [\<lparr>rx = 95, ry = 119, rw = 66, rh = 18\<rparr>], [])" .
  with a x show ?thesis by simp
qed

section \<open>Properties of the collision pass\<close>

text \<open>\<^verbatim>\<open>isOverlapping\<close> finds a rectangle of the list that intersects the new one.\<close>

lemma isOverlapping_iff:
  "isOverlapping qt r rs \<longleftrightarrow> (\<exists>r' \<in> set rs. intersects qt r' r)"
  by (induction rs) auto

text \<open>Appending a rectangle keeps the invariant exactly if it overlaps none of the list.\<close>

lemma noOverlap_append:
  "noOverlap qt (rs @ [r]) \<longleftrightarrow> noOverlap qt rs \<and> \<not> isOverlapping qt r rs"
  by (induction rs) (auto simp: list_all_iff isOverlapping_iff)

text \<open>
  A label has a rectangle \<open>r\<close> and a render entry \<open>e\<close> that do not depend on the two lists;
  the lists only decide whether the label is kept.
\<close>

lemma processSimpleText_label:
  "\<exists>r e. \<forall>rects l.
     processSimpleText qt t c os oc f feat ls mz vz ox oy (rects, l)
     = (if isOverlapping qt r rects then (rects, l) else (rects @ [r], l @ [e]))"
  unfolding processSimpleText_def Let_def prod.case
  by (intro exI allI) (rule refl)

lemma processCompositeText_label:
  "(\<forall>rects l. processCompositeText qt ts c os oc f feat ls mz vz ox oy (rects, l)
               = Inl IndexOutOfRange)
   \<or> (\<exists>r e. \<forall>rects l.
         processCompositeText qt ts c os oc f feat ls mz vz ox oy (rects, l)
         = (if isOverlapping qt r rects then Inr (rects, l) else Inr (rects @ [r], l @ [e])))"
proof (cases "map fst (map (\<lambda>(i, text). processCompositeText_line qt f os c (length ts) i text)
                        (zip [0..<length ts] ts))")
  case Nil
  then show ?thesis
    by (simp add: processCompositeText_def Let_def)
next
  case (Cons p ps)
  show ?thesis
    unfolding processCompositeText_def Let_def prod.case Cons list.case
    by (intro disjI2 exI allI) (rule refl)
qed

lemma processSingleTileFeature_Point_label:
  "\<exists>painter'.
     (\<forall>rects l. processSingleTileFeature_Point qt d tileSize ox oy force (painter, rects, l)
                 = Inl IndexOutOfRange)
     \<or> (\<forall>rects l. processSingleTileFeature_Point qt d tileSize ox oy force (painter, rects, l)
                 = Inr (painter', rects, l))
     \<or> (\<exists>r e. \<forall>rects l.
           processSingleTileFeature_Point qt d tileSize ox oy force (painter, rects, l)
           = (if isOverlapping qt r rects then Inr (painter', rects, l)
              else Inr (painter', rects @ [r], l @ [e])))"
proof -
  define content where "content = getTextContent qt (pt_layerStyle d)
      (AbstractLayerFeature.truncate (pt_feature d)) (pt_mapZoom d) (pt_vpZoom d)"
  show ?thesis
  proof (cases "content = []")
    case True
    then have "\<forall>rects l. processSingleTileFeature_Point qt d tileSize ox oy force (painter, rects, l)
                 = Inr (painter, rects, l)"
      by (simp add: processSingleTileFeature_Point_def content_def)
    then show ?thesis by blast
  next
    case False
    note ne = False [unfolded content_def]
    show ?thesis
    proof (cases "anchorCoordinates (points (pt_feature d))")
      case (Inl e)
      then have "\<forall>rects l. processSingleTileFeature_Point qt d tileSize ox oy force (painter, rects, l)
                 = Inl e"
        by (simp add: processSingleTileFeature_Point_def ne Let_def)
      then show ?thesis by (cases e) blast
    next
      case (Inr p)
      define q where "q = QTransform_map
         (QTransform_scale (real_of_int tileSize) (real_of_int tileSize)
            (QTransform_scale (1 / 4096) (1 / 4096) QTransform_identity)) p"
      define font where "font = setPixelSize
          (getTextSize qt (pt_layerStyle d) (AbstractLayerFeature.truncate (pt_feature d))
             (pt_mapZoom d) (pt_vpZoom d))
          (if force then painterFont painter else QFont_new (m_textFont (pt_layerStyle d)))"
      define lines where "lines = getCorrectedText qt
          (getTextContent qt (pt_layerStyle d) (AbstractLayerFeature.truncate (pt_feature d))
             (pt_mapZoom d) (pt_vpZoom d))
          font (toInt qt (m_textMaxWidth (pt_layerStyle d)))"
      show ?thesis
      proof (cases "fst q < 0 \<or> fst q > tileSize \<or> snd q < 0 \<or> snd q > tileSize")
        case True
        then have "\<exists>painter'. \<forall>rects l.
            processSingleTileFeature_Point qt d tileSize ox oy force (painter, rects, l)
            = Inr (painter', rects, l)"
          unfolding q_def
          by (simp add: processSingleTileFeature_Point_def ne Inr Let_def)
        then show ?thesis by blast
      next
        case outside: False
        show ?thesis
        proof (cases "length lines = 1")
          case True
          obtain r e where re: "\<And>rects l.
              processSimpleText qt (lines ! 0) q
                (toInt qt (m_textHaloWidth (pt_layerStyle d)))
                (toColor qt (m_textHaloColor (pt_layerStyle d))) font (pt_feature d)
                (pt_layerStyle d) (pt_mapZoom d) (pt_vpZoom d) ox oy (rects, l)
              = (if isOverlapping qt r rects then (rects, l) else (rects @ [r], l @ [e]))"
            using processSimpleText_label by metis
          from outside True have "\<exists>painter'. \<forall>rects l.
              processSingleTileFeature_Point qt d tileSize ox oy force (painter, rects, l)
              = (if isOverlapping qt r rects then Inr (painter', rects, l)
                 else Inr (painter', rects @ [r], l @ [e]))"
            unfolding q_def lines_def font_def
            by (simp add: processSingleTileFeature_Point_def ne Inr Let_def
                re [unfolded q_def lines_def font_def])
          then show ?thesis by blast
        next
          case False
          from processCompositeText_label [of qt lines q
                "toInt qt (m_textHaloWidth (pt_layerStyle d))"
                "toColor qt (m_textHaloColor (pt_layerStyle d))" font "pt_feature d"
                "pt_layerStyle d" "pt_mapZoom d" "pt_vpZoom d" ox oy]
          show ?thesis
          proof
            assume err: "\<forall>rects l. processCompositeText qt lines q
                (toInt qt (m_textHaloWidth (pt_layerStyle d)))
                (toColor qt (m_textHaloColor (pt_layerStyle d))) font (pt_feature d)
                (pt_layerStyle d) (pt_mapZoom d) (pt_vpZoom d) ox oy (rects, l)
              = Inl IndexOutOfRange"
            from outside False have "\<forall>rects l.
                processSingleTileFeature_Point qt d tileSize ox oy force (painter, rects, l)
                = Inl IndexOutOfRange"
              unfolding q_def lines_def font_def
              by (simp add: processSingleTileFeature_Point_def ne Inr Let_def
                  err [unfolded q_def lines_def font_def])
            then show ?thesis by blast
          next
            assume "\<exists>r e. \<forall>rects l. processCompositeText qt lines q
                (toInt qt (m_textHaloWidth (pt_layerStyle d)))
                (toColor qt (m_textHaloColor (pt_layerStyle d))) font (pt_feature d)
                (pt_layerStyle d) (pt_mapZoom d) (pt_vpZoom d) ox oy (rects, l)
              = (if isOverlapping qt r rects then Inr (rects, l)
                 else Inr (rects @ [r], l @ [e]))"
            then obtain r e where re: "\<And>rects l. processCompositeText qt lines q
                (toInt qt (m_textHaloWidth (pt_layerStyle d)))
                (toColor qt (m_textHaloColor (pt_layerStyle d))) font (pt_feature d)
                (pt_layerStyle d) (pt_mapZoom d) (pt_vpZoom d) ox oy (rects, l)
              = (if isOverlapping qt r rects then Inr (rects, l)
                 else Inr (rects @ [r], l @ [e]))" by blast
            from outside False have "\<exists>painter'. \<forall>rects l.
                processSingleTileFeature_Point qt d tileSize ox oy force (painter, rects, l)
                = (if isOverlapping qt r rects then Inr (painter', rects, l)
                   else Inr (painter', rects @ [r], l @ [e]))"
              unfolding q_def lines_def font_def
              by (simp add: processSingleTileFeature_Point_def ne Inr Let_def
                  re [unfolded q_def lines_def font_def])
            then show ?thesis by blast
          qed
        qed
      qed
    qed
  qed
qed


text \<open>
  \<^verbatim>\<open>processSingleTileFeature_Point_Curved\<close> with its local variables replaced by the named
  quantities.
\<close>

lemma curved_unfold:
  "processSingleTileFeature_Point_Curved qt c tileSize ox oy (rects, l) =
     (case curvedText qt c of
        [] \<Rightarrow> (rects, l)
      | firstChar # _ \<Rightarrow>
          if real_of_int (calctotalTextHorizontalAdvance qt (curvedFont qt c) (curvedText qt c)
                            (truncToInt (curvedSpacing qt c)))
             > pathLength qt (curvedPath c)
          then (rects, l)
          else (case placeCharacters qt (curvedPath c) (curvedFont qt c) (curvedMaxAngle qt c)
                       (curvedSpacing qt c) (curvedFlip qt c) (curvedChars qt c) 0
                       (percentAtLength qt (curvedPath c) 0) (angleAtPercent qt (curvedPath c) 0) []
                       \<lparr>rx = truncToInt (fst (pointAtPercent qt (curvedPath c) 0)),
                        ry = truncToInt (snd (pointAtPercent qt (curvedPath c) 0)
                                         - real_of_int (cdiv (fontHeight qt (curvedFont qt c)) 2)),
                        rw = horizontalAdvanceChar qt (curvedFont qt c) firstChar,
                        rh = fontHeight qt (curvedFont qt c)\<rparr> of
                  None \<Rightarrow> (rects, l)
                | Some (charsVector, textRect) \<Rightarrow>
                    if isOverlapping qt (QRect_translate ox oy textRect) rects then (rects, l)
                    else (rects @ [QRect_translate ox oy textRect],
                          l @ [\<lparr>ct_textList = charsVector,
                                ct_font = curvedFont qt c,
                                ct_textColor =
                                  getTextColor qt (cv_layerStyle c)
                                    (AbstractLayerFeature.truncate (cv_feature c))
                                    (cv_mapZoom c) (cv_vpZoom c),
                                ct_opacity =
                                  getTextOpacity qt (cv_layerStyle c)
                                    (AbstractLayerFeature.truncate (cv_feature c))
                                    (cv_mapZoom c) (cv_vpZoom c),
                                ct_tileOrigin = (ox, oy),
                                ct_outlineColor = toColor qt (m_textHaloColor (cv_layerStyle c)),
                                ct_outlineSize = toInt qt (m_textHaloWidth (cv_layerStyle c))\<rparr>])))"
  unfolding processSingleTileFeature_Point_Curved_def curvedText_def curvedFont_def
    curvedSpacing_def curvedPath_def curvedMaxAngle_def curvedFlip_def curvedChars_def
    Let_def prod.case
  by (rule refl)


lemma processSingleTileFeature_Point_Curved_label:
  "(\<forall>rects l. processSingleTileFeature_Point_Curved qt c tileSize ox oy (rects, l) = (rects, l))
   \<or> (\<exists>r e. \<forall>rects l.
         processSingleTileFeature_Point_Curved qt c tileSize ox oy (rects, l)
         = (if isOverlapping qt r rects then (rects, l) else (rects @ [r], l @ [e])))"
proof (cases "curvedText qt c")
  case Nil
  then show ?thesis by (simp add: curved_unfold)
next
  case (Cons a as)
  show ?thesis
  proof (cases "real_of_int (calctotalTextHorizontalAdvance qt (curvedFont qt c) (curvedText qt c)
                            (truncToInt (curvedSpacing qt c)))
             > pathLength qt (curvedPath c)")
    case True
    then show ?thesis by (simp add: curved_unfold Cons)
  next
    case short: False
    show ?thesis
    proof (cases "placeCharacters qt (curvedPath c) (curvedFont qt c) (curvedMaxAngle qt c)
                       (curvedSpacing qt c) (curvedFlip qt c) (curvedChars qt c) 0
                       (percentAtLength qt (curvedPath c) 0) (angleAtPercent qt (curvedPath c) 0) []
                       \<lparr>rx = truncToInt (fst (pointAtPercent qt (curvedPath c) 0)),
                        ry = truncToInt (snd (pointAtPercent qt (curvedPath c) 0)
                                         - real_of_int (cdiv (fontHeight qt (curvedFont qt c)) 2)),
                        rw = horizontalAdvanceChar qt (curvedFont qt c) a,
                        rh = fontHeight qt (curvedFont qt c)\<rparr>")
      case None
      with short show ?thesis by (simp add: curved_unfold Cons)
    next
      case (Some res)
      obtain cv tr where res: "res = (cv, tr)" by (cases res)
      from short Some show ?thesis
        unfolding res
        by (intro disjI2) (simp add: curved_unfold Cons, blast)
    qed
  qed
qed



text \<open>Both entry points preserve the collision invariant.\<close>

lemma point_preserves_noOverlap:
  assumes inv: "noOverlap qt rects"
    and res: "processSingleTileFeature_Point qt d tileSize ox oy force (painter, rects, l)
              = Inr (painter', rects', l')"
  shows "noOverlap qt rects'"
proof -
  from processSingleTileFeature_Point_label [of qt d tileSize ox oy force painter]
  obtain pp where alt:
    "(\<forall>rects l. processSingleTileFeature_Point qt d tileSize ox oy force (painter, rects, l)
                 = Inl IndexOutOfRange)
     \<or> (\<forall>rects l. processSingleTileFeature_Point qt d tileSize ox oy force (painter, rects, l)
                 = Inr (pp, rects, l))
     \<or> (\<exists>r e. \<forall>rects l.
           processSingleTileFeature_Point qt d tileSize ox oy force (painter, rects, l)
           = (if isOverlapping qt r rects then Inr (pp, rects, l)
              else Inr (pp, rects @ [r], l @ [e])))" ..
  then show ?thesis
  proof (elim disjE exE)
    assume "\<forall>rects l. processSingleTileFeature_Point qt d tileSize ox oy force (painter, rects, l)
                 = Inl IndexOutOfRange"
    with res show ?thesis by simp
  next
    assume "\<forall>rects l. processSingleTileFeature_Point qt d tileSize ox oy force (painter, rects, l)
                 = Inr (pp, rects, l)"
    with res have "rects' = rects" by simp
    with inv show ?thesis by simp
  next
    fix r e
    assume lab: "\<forall>rects l.
           processSingleTileFeature_Point qt d tileSize ox oy force (painter, rects, l)
           = (if isOverlapping qt r rects then Inr (pp, rects, l)
              else Inr (pp, rects @ [r], l @ [e]))"
    show ?thesis
    proof (cases "isOverlapping qt r rects")
      case True
      with lab res have "rects' = rects" by simp
      with inv show ?thesis by simp
    next
      case False
      with lab res have "rects' = rects @ [r]" by simp
      with inv False show ?thesis by (simp add: noOverlap_append)
    qed
  qed
qed

lemma curved_preserves_noOverlap:
  assumes inv: "noOverlap qt rects"
  shows "noOverlap qt (fst (processSingleTileFeature_Point_Curved qt c tileSize ox oy (rects, l)))"
proof -
  from processSingleTileFeature_Point_Curved_label [of qt c tileSize ox oy]
  show ?thesis
  proof (elim disjE exE)
    assume "\<forall>rects l. processSingleTileFeature_Point_Curved qt c tileSize ox oy (rects, l)
                       = (rects, l)"
    with inv show ?thesis by simp
  next
    fix r e
    assume lab: "\<forall>rects l.
         processSingleTileFeature_Point_Curved qt c tileSize ox oy (rects, l)
         = (if isOverlapping qt r rects then (rects, l) else (rects @ [r], l @ [e]))"
    show ?thesis
    proof (cases "isOverlapping qt r rects")
      case True
      with lab inv show ?thesis by simp
    next
      case False
      with lab inv show ?thesis by (simp add: noOverlap_append)
    qed
  qed
qed


text \<open>
  C2 (collision avoidance). A call of \<^verbatim>\<open>processSingleTileFeature_Point\<close> (simple and composite
  axis-aligned labels) either aborts on a feature without points, or produces no label (empty
  text, anchor outside the tile), or produces a label with a world-coordinate rectangle \<open>r\<close>
  and a render entry \<open>e\<close>; a call of \<^verbatim>\<open>processSingleTileFeature_Point_Curved\<close> either produces
  no label or a label with a rectangle \<open>r\<close> and an entry \<open>e\<close>. In both, \<open>r\<close> and \<open>e\<close> do not
  depend on the lists, and for all lists: if some rectangle kept earlier intersects \<open>r\<close>, the
  label is dropped entirely (both lists unchanged); otherwise \<open>r\<close> is appended to the
  rectangles and \<open>e\<close> to the render list. Hence a kept label's rectangle intersects no
  earlier kept one: each call preserves \<open>noOverlap\<close>.
\<close>

theorem label_is_kept_iff_no_kept_rectangle_intersects:
  "(\<exists>painter'.
      (\<forall>rects vpTextList.
         processSingleTileFeature_Point qt d tileSize tileOriginX tileOriginY force
           (painter, rects, vpTextList) = Inl IndexOutOfRange)
      \<or> (\<forall>rects vpTextList.
         processSingleTileFeature_Point qt d tileSize tileOriginX tileOriginY force
           (painter, rects, vpTextList) = Inr (painter', rects, vpTextList))
      \<or> (\<exists>r e. \<forall>rects vpTextList.
         processSingleTileFeature_Point qt d tileSize tileOriginX tileOriginY force
           (painter, rects, vpTextList)
         = (if \<exists>r0 \<in> set rects. intersects qt r0 r then Inr (painter', rects, vpTextList)
            else Inr (painter', rects @ [r], vpTextList @ [e]))))
   \<and> ((\<forall>rects vpCurvedTextList.
         processSingleTileFeature_Point_Curved qt c tileSize tileOriginX tileOriginY
           (rects, vpCurvedTextList) = (rects, vpCurvedTextList))
      \<or> (\<exists>r e. \<forall>rects vpCurvedTextList.
         processSingleTileFeature_Point_Curved qt c tileSize tileOriginX tileOriginY
           (rects, vpCurvedTextList)
         = (if \<exists>r0 \<in> set rects. intersects qt r0 r then (rects, vpCurvedTextList)
            else (rects @ [r], vpCurvedTextList @ [e]))))
   \<and> (noOverlap qt rects \<longrightarrow>
        (\<forall>painter' rects' vpTextList'.
           processSingleTileFeature_Point qt d tileSize tileOriginX tileOriginY force
             (painter, rects, vpTextList) = Inr (painter', rects', vpTextList')
           \<longrightarrow> noOverlap qt rects')
        \<and> noOverlap qt
             (fst (processSingleTileFeature_Point_Curved qt c tileSize tileOriginX tileOriginY
                     (rects, vpCurvedTextList))))"
proof (intro conjI impI allI)
  show "\<exists>painter'.
      (\<forall>rects vpTextList.
         processSingleTileFeature_Point qt d tileSize tileOriginX tileOriginY force
           (painter, rects, vpTextList) = Inl IndexOutOfRange)
      \<or> (\<forall>rects vpTextList.
         processSingleTileFeature_Point qt d tileSize tileOriginX tileOriginY force
           (painter, rects, vpTextList) = Inr (painter', rects, vpTextList))
      \<or> (\<exists>r e. \<forall>rects vpTextList.
         processSingleTileFeature_Point qt d tileSize tileOriginX tileOriginY force
           (painter, rects, vpTextList)
         = (if \<exists>r0 \<in> set rects. intersects qt r0 r then Inr (painter', rects, vpTextList)
            else Inr (painter', rects @ [r], vpTextList @ [e])))"
    using processSingleTileFeature_Point_label [of qt d tileSize tileOriginX tileOriginY force painter]
    unfolding isOverlapping_iff .
next
  show "(\<forall>rects vpCurvedTextList.
         processSingleTileFeature_Point_Curved qt c tileSize tileOriginX tileOriginY
           (rects, vpCurvedTextList) = (rects, vpCurvedTextList))
      \<or> (\<exists>r e. \<forall>rects vpCurvedTextList.
         processSingleTileFeature_Point_Curved qt c tileSize tileOriginX tileOriginY
           (rects, vpCurvedTextList)
         = (if \<exists>r0 \<in> set rects. intersects qt r0 r then (rects, vpCurvedTextList)
            else (rects @ [r], vpCurvedTextList @ [e])))"
    using processSingleTileFeature_Point_Curved_label [of qt c tileSize tileOriginX tileOriginY]
    unfolding isOverlapping_iff .
next
  fix painter' rects' vpTextList'
  assume "noOverlap qt rects"
    and "processSingleTileFeature_Point qt d tileSize tileOriginX tileOriginY force
             (painter, rects, vpTextList) = Inr (painter', rects', vpTextList')"
  then show "noOverlap qt rects'" by (rule point_preserves_noOverlap)
next
  assume "noOverlap qt rects"
  then show "noOverlap qt
             (fst (processSingleTileFeature_Point_Curved qt c tileSize tileOriginX tileOriginY
                     (rects, vpCurvedTextList)))"
    by (rule curved_preserves_noOverlap)
qed

text \<open>
  The label \<open>Oslo\<close> at the centre of a tile of 256 pixels: the call reaches
  \<^verbatim>\<open>processSimpleText\<close> with the anchor \<open>(128, 128)\<close>, which computes the rectangle
  \<open>(95, 119, 66, 18)\<close>.
\<close>

lemma oslo_dispatch:
  "processSingleTileFeature_Point refQt (namedPoint ''Oslo'' [(2048, 2048)]) 256 0 0 False
    (refPainter, rects, l) =
   (case processSimpleText refQt ''Oslo'' (128, 128) 1 (255, 255, 255, 1)
     \<lparr>families = [''Open Sans Regular''], pixelSize = 16\<rparr>
     (pt_feature (namedPoint ''Oslo'' [(2048, 2048)])) refStyle 2 2 0 0 (rects, l) of
      (rects', l') \<Rightarrow> Inr (refPainter, rects', l'))"
  by (simp add: processSingleTileFeature_Point_def ref_eval Let_def)

lemma oslo_simple:
  "processSimpleText refQt ''Oslo'' (128, 128) 1 (255, 255, 255, 1)
     \<lparr>families = [''Open Sans Regular''], pixelSize = 16\<rparr>
     (pt_feature (namedPoint ''Oslo'' [(2048, 2048)])) refStyle 2 2 0 0 ([], [])
   = ([\<lparr>rx = 95, ry = 119, rw = 66, rh = 18\<rparr>],
      [\<lparr>gt_tileOrigin = (0, 0),
          gt_path =
            [[(MoveToElement, 95, 121), (LineToElement, 159, 121),
              (LineToElement, 159, 137), (LineToElement, 95, 137)]],
          gt_text = [''Oslo''], gt_position = [(95, 137)],
          gt_font = \<lparr>families = [''Open Sans Regular''], pixelSize = 16\<rparr>,
          gt_textColor = (0, 0, 0, 1), gt_outlineSize = 1,
          gt_outlineColor = (255, 255, 255, 1),
          gt_boundingRect = \<lparr>rx = 95, ry = 121, rw = 66, rh = 18\<rparr>\<rparr>])"
  by (simp add: processSimpleText_def ref_eval)

lemma oslo_kept:
  "processSingleTileFeature_Point refQt (namedPoint ''Oslo'' [(2048, 2048)]) 256 0 0 False
    (refPainter, [], []) =
   Inr (refPainter, [\<lparr>rx = 95, ry = 119, rw = 66, rh = 18\<rparr>],
      [\<lparr>gt_tileOrigin = (0, 0),
          gt_path =
            [[(MoveToElement, 95, 121), (LineToElement, 159, 121),
              (LineToElement, 159, 137), (LineToElement, 95, 137)]],
          gt_text = [''Oslo''], gt_position = [(95, 137)],
          gt_font = \<lparr>families = [''Open Sans Regular''], pixelSize = 16\<rparr>,
          gt_textColor = (0, 0, 0, 1), gt_outlineSize = 1,
          gt_outlineColor = (255, 255, 255, 1),
          gt_boundingRect = \<lparr>rx = 95, ry = 121, rw = 66, rh = 18\<rparr>\<rparr>])"
  by (simp only: oslo_dispatch oslo_simple prod.case)

text \<open>
  The label \<open>Oslo\<close> is kept when nothing was kept before; processed a second time it is
  dropped, because its rectangle intersects the kept one; a curved label processed after it
  leaves the invariant intact.
\<close>

theorem label_is_kept_iff_no_kept_rectangle_intersects_witness:
  "noOverlap refQt []
   \<and> processSingleTileFeature_Point refQt (namedPoint ''Oslo'' [(2048, 2048)]) 256 0 0 False
        (refPainter, [], [])
      = Inr (refPainter, [\<lparr>rx = 95, ry = 119, rw = 66, rh = 18\<rparr>],
          [\<lparr>gt_tileOrigin = (0, 0),
            gt_path =
              [[(MoveToElement, 95, 121), (LineToElement, 159, 121),
                (LineToElement, 159, 137), (LineToElement, 95, 137)]],
            gt_text = [''Oslo''], gt_position = [(95, 137)],
            gt_font = \<lparr>families = [''Open Sans Regular''], pixelSize = 16\<rparr>,
            gt_textColor = (0, 0, 0, 1), gt_outlineSize = 1,
            gt_outlineColor = (255, 255, 255, 1),
            gt_boundingRect = \<lparr>rx = 95, ry = 121, rw = 66, rh = 18\<rparr>\<rparr>])
   \<and> noOverlap refQt [\<lparr>rx = 95, ry = 119, rw = 66, rh = 18\<rparr>]
   \<and> intersects refQt \<lparr>rx = 95, ry = 119, rw = 66, rh = 18\<rparr> \<lparr>rx = 95, ry = 119, rw = 66, rh = 18\<rparr>
   \<and> processSingleTileFeature_Point refQt (namedPoint ''Oslo'' [(2048, 2048)]) 256 0 0 False
        (refPainter, [\<lparr>rx = 95, ry = 119, rw = 66, rh = 18\<rparr>], [])
      = Inr (refPainter, [\<lparr>rx = 95, ry = 119, rw = 66, rh = 18\<rparr>], [])
   \<and> noOverlap refQt
        (fst (processSingleTileFeature_Point_Curved refQt (namedLine ''Storgata'' [(0, 0), (200, 0)])
                256 0 0 ([\<lparr>rx = 95, ry = 119, rw = 66, rh = 18\<rparr>], [])))"
proof -
  let ?r0 = "\<lparr>rx = 95, ry = 119, rw = 66, rh = 18\<rparr>"
  let ?d = "namedPoint ''Oslo'' [(2048, 2048)]"
  let ?c = "namedLine ''Storgata'' [(0, 0), (200, 0)]"
  have h0: "noOverlap refQt []" by simp
  have h1: "noOverlap refQt [?r0]" by simp
  have i: "intersects refQt ?r0 ?r0" by (simp add: refQt_sel ref_intersects_def)
  note t0 = label_is_kept_iff_no_kept_rectangle_intersects
    [of refQt ?d 256 0 0 False refPainter ?c "[?r0]" "[]" "[]"]
  from t0 obtain p' where alt:
      "(\<forall>rects l. processSingleTileFeature_Point refQt ?d 256 0 0 False (refPainter, rects, l)
                  = Inl IndexOutOfRange)
       \<or> (\<forall>rects l. processSingleTileFeature_Point refQt ?d 256 0 0 False (refPainter, rects, l)
                  = Inr (p', rects, l))
       \<or> (\<exists>r e. \<forall>rects l. processSingleTileFeature_Point refQt ?d 256 0 0 False
                              (refPainter, rects, l)
            = (if \<exists>r0 \<in> set rects. intersects refQt r0 r then Inr (p', rects, l)
               else Inr (p', rects @ [r], l @ [e])))"
    by blast
  have "\<exists>r e. \<forall>rects l. processSingleTileFeature_Point refQt ?d 256 0 0 False
                              (refPainter, rects, l)
            = (if \<exists>r0 \<in> set rects. intersects refQt r0 r then Inr (p', rects, l)
               else Inr (p', rects @ [r], l @ [e]))"
    using alt
  proof (elim disjE)
    assume "\<forall>rects l. processSingleTileFeature_Point refQt ?d 256 0 0 False (refPainter, rects, l)
                  = Inl IndexOutOfRange"
    then have "processSingleTileFeature_Point refQt ?d 256 0 0 False (refPainter, [], [])
                  = Inl IndexOutOfRange" by blast
    with oslo_kept show ?thesis by simp
  next
    assume "\<forall>rects l. processSingleTileFeature_Point refQt ?d 256 0 0 False (refPainter, rects, l)
                  = Inr (p', rects, l)"
    then have "processSingleTileFeature_Point refQt ?d 256 0 0 False (refPainter, [], [])
                  = Inr (p', [], [])" by blast
    with oslo_kept show ?thesis by simp
  qed
  then obtain r e where
    lab: "\<And>rects l. processSingleTileFeature_Point refQt ?d 256 0 0 False (refPainter, rects, l)
            = (if \<exists>r0 \<in> set rects. intersects refQt r0 r then Inr (p', rects, l)
               else Inr (p', rects @ [r], l @ [e]))"
    by blast
  from lab [of "[]" "[]"] oslo_kept have "p' = refPainter" "r = ?r0" by simp_all
  with lab [of "[?r0]" "[]"] i
  have dropped: "processSingleTileFeature_Point refQt ?d 256 0 0 False (refPainter, [?r0], [])
      = Inr (refPainter, [?r0], [])" by simp
  from t0 h1 have curved: "noOverlap refQt
        (fst (processSingleTileFeature_Point_Curved refQt ?c 256 0 0 ([?r0], [])))" by blast
  from h0 oslo_kept h1 i dropped curved show ?thesis by blast
qed

section \<open>Properties of the curved labels\<close>

lemma length_glyphLengths:
  "length (glyphLengths qt f sp len chars) = length chars"
  by (induction chars arbitrary: len) auto

text \<open>
  The loop aborts when the tangent at some character differs by more than the maximum angle
  from the tangent at the character before it (for the first character: from \<open>pre\<close>).
\<close>

lemma placeCharacters_aborts:
  assumes "percentage = percentAtLength qt path len"
    and "\<exists>k < length chars.
           \<bar>tangentAtLength qt path (glyphLengths qt f sp len chars ! k)
             - (pre # map (tangentAtLength qt path) (glyphLengths qt f sp len chars)) ! k\<bar>
           > real_of_int maxAngle"
  shows "placeCharacters qt path f maxAngle sp flip chars len percentage pre cv tr = None"
  using assms
proof (induction chars arbitrary: len percentage pre cv tr)
  case Nil
  then show ?case by simp
next
  case (Cons c cs)
  define len' where "len' = len + real_of_int (horizontalAdvanceChar qt f c)
                           + (if c = CHR '' '' then 0 else sp)"
  define angle where "angle = angleAtPercent qt path percentage"
  have angle: "angle = tangentAtLength qt path len"
    by (simp add: angle_def tangentAtLength_def Cons.prems(1))
  have lens: "glyphLengths qt f sp len (c # cs) = len # glyphLengths qt f sp len' cs"
    by (simp add: len'_def)
  show ?case
  proof (cases "\<bar>angle - pre\<bar> > real_of_int maxAngle")
    case True
    then show ?thesis by (simp add: angle_def Let_def)
  next
    case False
    from Cons.prems(2) [unfolded lens] obtain k where k: "k < length (c # cs)"
      and v: "\<bar>tangentAtLength qt path ((len # glyphLengths qt f sp len' cs) ! k)
             - (pre # map (tangentAtLength qt path) (len # glyphLengths qt f sp len' cs)) ! k\<bar>
           > real_of_int maxAngle" by blast
    have "k \<noteq> 0"
    proof
      assume "k = 0"
      with v have "\<bar>tangentAtLength qt path len - pre\<bar> > real_of_int maxAngle" by simp
      with False angle show False by simp
    qed
    then obtain j where j: "k = Suc j" by (cases k) auto
    from k v have "\<exists>j < length cs.
           \<bar>tangentAtLength qt path (glyphLengths qt f sp len' cs ! j)
             - (angle # map (tangentAtLength qt path) (glyphLengths qt f sp len' cs)) ! j\<bar>
           > real_of_int maxAngle"
      unfolding j angle by auto
    note ih = Cons.IH [OF refl this, unfolded angle_def len'_def]
    from False show ?thesis by (simp add: angle_def Let_def ih split del: if_split)
  qed
qed

text \<open>A completed loop has appended exactly the characters it was given, in order.\<close>

lemma placeCharacters_characters:
  "placeCharacters qt path f maxAngle sp flip chars len percentage pre cv tr = Some (cv', tr')
   \<Longrightarrow> map sc_character cv' = map sc_character cv @ chars"
proof (induction chars arbitrary: len percentage pre cv tr flip)
  case Nil
  then show ?case by simp
next
  case (Cons c cs)
  from Cons.prems show ?case
    by (auto simp: Let_def split: if_splits dest!: Cons.IH)
qed


text \<open>
  The two aborts of \<^verbatim>\<open>processSingleTileFeature_Point_Curved\<close>. If the total horizontal
  advance of the upper-case text, as \<^verbatim>\<open>calctotalTextHorizontalAdvance\<close> computes it from the
  letter spacing truncated to \<^verbatim>\<open>int\<close> by its parameter type, exceeds the length of the
  feature's path in pixels, or if at some character after the first the tangent angle of the
  path differs by more than the resolved maximum angle from the tangent angle at the character
  placed before it, then the function returns with the collision rectangles and the
  curved-text list unchanged.
\<close>

lemma curved_label_aborts_on_failed_check_or_bend:
  assumes "real_of_int (calctotalTextHorizontalAdvance qt (curvedFont qt c) (curvedText qt c)
                          (truncToInt (curvedSpacing qt c)))
           > pathLength qt (curvedPath c)
         \<or> (\<exists>k. 0 < k \<and> k < length (curvedChars qt c) \<and>
               \<bar>tangentAtLength qt (curvedPath c)
                  (glyphLengths qt (curvedFont qt c) (curvedSpacing qt c) 0 (curvedChars qt c) ! k)
                - tangentAtLength qt (curvedPath c)
                  (glyphLengths qt (curvedFont qt c) (curvedSpacing qt c) 0 (curvedChars qt c)
                   ! (k - 1))\<bar>
               > real_of_int (curvedMaxAngle qt c))"
  shows "processSingleTileFeature_Point_Curved qt c tileSize tileOriginX tileOriginY
           (rects, vpCurvedTextList) = (rects, vpCurvedTextList)"
proof (cases "curvedText qt c")
  case Nil
  then show ?thesis by (simp add: curved_unfold)
next
  case (Cons a as)
  show ?thesis
  proof (cases "real_of_int (calctotalTextHorizontalAdvance qt (curvedFont qt c) (curvedText qt c)
                          (truncToInt (curvedSpacing qt c)))
           > pathLength qt (curvedPath c)")
    case True
    then show ?thesis by (simp add: curved_unfold Cons)
  next
    case False
    with assms obtain k where k: "0 < k" "k < length (curvedChars qt c)"
      and v: "\<bar>tangentAtLength qt (curvedPath c)
                  (glyphLengths qt (curvedFont qt c) (curvedSpacing qt c) 0 (curvedChars qt c) ! k)
                - tangentAtLength qt (curvedPath c)
                  (glyphLengths qt (curvedFont qt c) (curvedSpacing qt c) 0 (curvedChars qt c)
                   ! (k - 1))\<bar>
               > real_of_int (curvedMaxAngle qt c)" by blast
    from k have "(pre # map (tangentAtLength qt (curvedPath c))
                    (glyphLengths qt (curvedFont qt c) (curvedSpacing qt c) 0 (curvedChars qt c))) ! k
          = tangentAtLength qt (curvedPath c)
              (glyphLengths qt (curvedFont qt c) (curvedSpacing qt c) 0 (curvedChars qt c) ! (k - 1))"
      for pre
      by (cases k) (simp_all add: length_glyphLengths)
    with k v have "\<exists>k < length (curvedChars qt c).
           \<bar>tangentAtLength qt (curvedPath c)
               (glyphLengths qt (curvedFont qt c) (curvedSpacing qt c) 0 (curvedChars qt c) ! k)
             - (angleAtPercent qt (curvedPath c) 0
                # map (tangentAtLength qt (curvedPath c))
                    (glyphLengths qt (curvedFont qt c) (curvedSpacing qt c) 0 (curvedChars qt c))) ! k\<bar>
           > real_of_int (curvedMaxAngle qt c)"
      by auto
    from placeCharacters_aborts [OF refl this]
    show ?thesis by (simp add: curved_unfold Cons False)
  qed
qed


text \<open>Evaluation of a curved label on the reference instance.\<close>

lemma placeCharacters_step:
  "placeCharacters qt path f maxAngle sp flip (c # cs) len percentage pre cv tr =
     (if \<bar>angleAtPercent qt path percentage - pre\<bar> > real_of_int maxAngle then None
      else placeCharacters qt path f maxAngle sp flip cs
             (len + real_of_int (horizontalAdvanceChar qt f c) + (if c = CHR '' '' then 0 else sp))
             (percentAtLength qt path
                (len + real_of_int (horizontalAdvanceChar qt f c)
                 + (if c = CHR '' '' then 0 else sp)))
             (angleAtPercent qt path percentage)
             (cv @ [\<lparr>sc_character = c, sc_position = pointAtPercent qt path percentage,
                     sc_angle = (if flip then - (angleAtPercent qt path percentage + 180)
                                 else - angleAtPercent qt path percentage)\<rparr>])
             (united qt tr
                \<lparr>rx = truncToInt (fst (pointAtPercent qt path percentage)),
                 ry = truncToInt (snd (pointAtPercent qt path percentage)
                                  - real_of_int (cdiv (fontHeight qt f) 2)),
                 rw = horizontalAdvanceChar qt f c, rh = fontHeight qt f\<rparr>))"
  by (simp add: Let_def)

lemma namedLine_sel:
  "cv_layerStyle (namedLine name pts) = refStyle"
  "cv_mapZoom (namedLine name pts) = 2"
  "cv_vpZoom (namedLine name pts) = 2"
  "featureMetaData (cv_feature (namedLine name pts)) = [''name'' \<mapsto> StringV name]"
  by (simp_all add: namedLine_def)

lemma storgata_text: "curvedText refQt (namedLine ''Storgata'' pts) = ''STORGATA''"
  by (simp add: curvedText_def ref_eval)

lemma storgata_font:
  "curvedFont refQt (namedLine ''Storgata'' pts)
   = \<lparr>families = [''Open Sans Regular''], pixelSize = 16\<rparr>"
  by (simp add: curvedFont_def ref_eval)

lemma storgata_spacing: "curvedSpacing refQt (namedLine ''Storgata'' pts) = 0"
  by (simp add: curvedSpacing_def ref_eval)

lemma storgata_maxAngle: "curvedMaxAngle refQt (namedLine ''Storgata'' pts) = 45"
  by (simp add: curvedMaxAngle_def ref_eval)

lemma namedLine_path:
  "curvedPath (namedLine name pts) = map (\<lambda>p. (LineToElement, p)) pts"
  by (simp add: curvedPath_def namedLine_def QTransform_mapPath_def QTransform_mapF_def
      QTransform_scale_def QTransform_identity_def comp_def)

lemma storgata_advance:
  "calctotalTextHorizontalAdvance refQt \<lparr>families = [''Open Sans Regular''], pixelSize = 16\<rparr>
     ''STORGATA'' (truncToInt 0) = 128"
  by (simp add: calctotalTextHorizontalAdvance_def refQt_sel truncToInt_def)

lemmas path_eval =
  refQt_sel ref_pathLength_def ref_percentAtLength_def ref_pointAtPercent_def
  ref_angleAtPercent_def segmentLength_def segmentAngle_def tangentAtLength_def
  isTextFlipped_def

lemma straight_flip: "curvedFlip refQt (namedLine ''Storgata'' [(0, 0), (200, 0)]) = False"
  by (simp add: curvedFlip_def namedLine_path path_eval)

lemma storgata_kept:
  "processSingleTileFeature_Point_Curved refQt (namedLine ''Storgata'' [(0, 0), (200, 0)])
     256 0 0 ([], []) =
   ([\<lparr>rx = 0, ry = - 8, rw = 128, rh = 16\<rparr>],
    [\<lparr>ct_textList =
        [\<lparr>sc_character = CHR ''S'', sc_position = (0, 0), sc_angle = 0\<rparr>,
         \<lparr>sc_character = CHR ''T'', sc_position = (16, 0), sc_angle = 0\<rparr>,
         \<lparr>sc_character = CHR ''O'', sc_position = (32, 0), sc_angle = 0\<rparr>,
         \<lparr>sc_character = CHR ''R'', sc_position = (48, 0), sc_angle = 0\<rparr>,
         \<lparr>sc_character = CHR ''G'', sc_position = (64, 0), sc_angle = 0\<rparr>,
         \<lparr>sc_character = CHR ''A'', sc_position = (80, 0), sc_angle = 0\<rparr>,
         \<lparr>sc_character = CHR ''T'', sc_position = (96, 0), sc_angle = 0\<rparr>,
         \<lparr>sc_character = CHR ''A'', sc_position = (112, 0), sc_angle = 0\<rparr>],
       ct_font = \<lparr>families = [''Open Sans Regular''], pixelSize = 16\<rparr>,
       ct_textColor = (0, 0, 0, 1), ct_opacity = 1, ct_tileOrigin = (0, 0),
       ct_outlineColor = (255, 255, 255, 1), ct_outlineSize = 1\<rparr>])"
  by (simp add: curved_unfold storgata_text storgata_font storgata_spacing storgata_maxAngle
      namedLine_path straight_flip curvedChars_def storgata_advance [unfolded truncToInt_def, simplified]
      placeCharacters_step path_eval truncToInt_def cdiv_def ref_united_def QRect_translate_def
      ref_intersects_def getTextColor_def getTextOpacity_def refStyle_sel namedLine_sel
      del: placeCharacters.simps(2))


text \<open>
  Evaluation under a letter spacing of \<open>1/32\<close> of the font size: half a pixel at 16
  pixels.
\<close>

lemma spacedLine_sel:
  "cv_layerStyle (spacedLine ems name pts)
   = refStyle\<lparr>getTextLetterSpacingAtZoom := (\<lambda>z. FloatV ems)\<rparr>"
  "cv_mapZoom (spacedLine ems name pts) = 2"
  "cv_vpZoom (spacedLine ems name pts) = 2"
  "featureMetaData (cv_feature (spacedLine ems name pts)) = [''name'' \<mapsto> StringV name]"
  by (simp_all add: spacedLine_def namedLine_def)

lemma spaced_text: "curvedText refQt (spacedLine ems ''Storgata'' pts) = ''STORGATA''"
  by (simp add: curvedText_def spacedLine_def ref_eval)

lemma spaced_font:
  "curvedFont refQt (spacedLine ems ''Storgata'' pts)
   = \<lparr>families = [''Open Sans Regular''], pixelSize = 16\<rparr>"
  by (simp add: curvedFont_def spacedLine_def ref_eval)

lemma spaced_spacing: "curvedSpacing refQt (spacedLine (1 / 32) ''Storgata'' pts) = 1 / 2"
  by (simp add: curvedSpacing_def spacedLine_def ref_eval)

lemma spaced_maxAngle: "curvedMaxAngle refQt (spacedLine ems ''Storgata'' pts) = 45"
  by (simp add: curvedMaxAngle_def spacedLine_def ref_eval)

lemma spaced_path:
  "curvedPath (spacedLine ems name pts) = map (\<lambda>p. (LineToElement, p)) pts"
  by (simp add: curvedPath_def spacedLine_def namedLine_def QTransform_mapPath_def
      QTransform_mapF_def QTransform_scale_def QTransform_identity_def comp_def)

lemma spaced_flip:
  "curvedFlip refQt (spacedLine ems ''Storgata'' [(0, 0), (128, 0)]) = False"
  by (simp add: curvedFlip_def spaced_path path_eval)

lemma spaced_advance:
  "calctotalTextHorizontalAdvance refQt \<lparr>families = [''Open Sans Regular''], pixelSize = 16\<rparr>
     ''STORGATA'' (truncToInt (1 / 2)) = 128"
  by (simp add: calctotalTextHorizontalAdvance_def refQt_sel truncToInt_def)

lemma spaced_kept:
  "processSingleTileFeature_Point_Curved refQt (spacedLine (1 / 32) ''Storgata'' [(0, 0), (128, 0)])
     256 0 0 ([], []) =
   ([\<lparr>rx = 0, ry = - 8, rw = 131, rh = 16\<rparr>],
    [\<lparr>ct_textList =
        [\<lparr>sc_character = CHR ''S'', sc_position = (0, 0), sc_angle = 0\<rparr>,
         \<lparr>sc_character = CHR ''T'', sc_position = (33 / 2, 0), sc_angle = 0\<rparr>,
         \<lparr>sc_character = CHR ''O'', sc_position = (33, 0), sc_angle = 0\<rparr>,
         \<lparr>sc_character = CHR ''R'', sc_position = (99 / 2, 0), sc_angle = 0\<rparr>,
         \<lparr>sc_character = CHR ''G'', sc_position = (66, 0), sc_angle = 0\<rparr>,
         \<lparr>sc_character = CHR ''A'', sc_position = (165 / 2, 0), sc_angle = 0\<rparr>,
         \<lparr>sc_character = CHR ''T'', sc_position = (99, 0), sc_angle = 0\<rparr>,
         \<lparr>sc_character = CHR ''A'', sc_position = (231 / 2, 0), sc_angle = 0\<rparr>],
       ct_font = \<lparr>families = [''Open Sans Regular''], pixelSize = 16\<rparr>,
       ct_textColor = (0, 0, 0, 1), ct_opacity = 1, ct_tileOrigin = (0, 0),
       ct_outlineColor = (255, 255, 255, 1), ct_outlineSize = 1\<rparr>])"
  by (simp add: curved_unfold spaced_text spaced_font spaced_spacing spaced_maxAngle
      spaced_path spaced_flip curvedChars_def
      storgata_advance [unfolded truncToInt_def, simplified]
      placeCharacters_step path_eval truncToInt_def cdiv_def ref_united_def QRect_translate_def
      ref_intersects_def getTextColor_def getTextOpacity_def refStyle_sel spacedLine_sel
      del: placeCharacters.simps(2))

text \<open>
  C3 (no partially rendered curved label), on the line feature \<open>Storgata\<close> with a straight
  path of 128 pixels, a font of 16 pixels per character and a letter spacing of half a pixel.
  The total horizontal advance of the text \<open>STORGATA\<close>, its glyph advances plus the letter
  spacing, is \<open>8 \<cdot> 16.5 = 132\<close> pixels and exceeds the length of the path. The check of the
  source passes the \<^verbatim>\<open>float\<close> spacing to the \<^verbatim>\<open>int\<close> parameter of
  \<^verbatim>\<open>calctotalTextHorizontalAdvance\<close>, which truncates it to 0 and returns 128, not greater
  than 128; the loop then places the characters \<open>16.5\<close> pixels apart, with the untruncated
  spacing. The label is appended to both lists; its rectangle is 131 pixels wide.
\<close>

theorem curved_label_longer_than_path_is_appended:
  "curvedText refQt (spacedLine (1 / 32) ''Storgata'' [(0, 0), (128, 0)]) = ''STORGATA''
   \<and> curvedSpacing refQt (spacedLine (1 / 32) ''Storgata'' [(0, 0), (128, 0)]) = 1 / 2
   \<and> sum_list (map (\<lambda>ch. real_of_int (horizontalAdvanceChar refQt
                             (curvedFont refQt (spacedLine (1 / 32) ''Storgata'' [(0, 0), (128, 0)]))
                             ch)
                         + (if ch = CHR '' '' then 0
                            else curvedSpacing refQt
                                   (spacedLine (1 / 32) ''Storgata'' [(0, 0), (128, 0)])))
                (curvedText refQt (spacedLine (1 / 32) ''Storgata'' [(0, 0), (128, 0)])))
      = 132
   \<and> pathLength refQt (curvedPath (spacedLine (1 / 32) ''Storgata'' [(0, 0), (128, 0)])) = 128
   \<and> calctotalTextHorizontalAdvance refQt
        (curvedFont refQt (spacedLine (1 / 32) ''Storgata'' [(0, 0), (128, 0)]))
        (curvedText refQt (spacedLine (1 / 32) ''Storgata'' [(0, 0), (128, 0)]))
        (truncToInt (curvedSpacing refQt (spacedLine (1 / 32) ''Storgata'' [(0, 0), (128, 0)])))
      = 128
   \<and> processSingleTileFeature_Point_Curved refQt
        (spacedLine (1 / 32) ''Storgata'' [(0, 0), (128, 0)]) 256 0 0 ([], [])
      = ([\<lparr>rx = 0, ry = - 8, rw = 131, rh = 16\<rparr>],
         [\<lparr>ct_textList =
             [\<lparr>sc_character = CHR ''S'', sc_position = (0, 0), sc_angle = 0\<rparr>,
              \<lparr>sc_character = CHR ''T'', sc_position = (33 / 2, 0), sc_angle = 0\<rparr>,
              \<lparr>sc_character = CHR ''O'', sc_position = (33, 0), sc_angle = 0\<rparr>,
              \<lparr>sc_character = CHR ''R'', sc_position = (99 / 2, 0), sc_angle = 0\<rparr>,
              \<lparr>sc_character = CHR ''G'', sc_position = (66, 0), sc_angle = 0\<rparr>,
              \<lparr>sc_character = CHR ''A'', sc_position = (165 / 2, 0), sc_angle = 0\<rparr>,
              \<lparr>sc_character = CHR ''T'', sc_position = (99, 0), sc_angle = 0\<rparr>,
              \<lparr>sc_character = CHR ''A'', sc_position = (231 / 2, 0), sc_angle = 0\<rparr>],
            ct_font = \<lparr>families = [''Open Sans Regular''], pixelSize = 16\<rparr>,
            ct_textColor = (0, 0, 0, 1), ct_opacity = 1, ct_tileOrigin = (0, 0),
            ct_outlineColor = (255, 255, 255, 1), ct_outlineSize = 1\<rparr>])"
proof -
  let ?c = "spacedLine (1 / 32) ''Storgata'' [(0, 0), (128, 0)]"
  have t: "curvedText refQt ?c = ''STORGATA''" by (rule spaced_text)
  have s: "curvedSpacing refQt ?c = 1 / 2" by (rule spaced_spacing)
  have total: "sum_list (map (\<lambda>ch. real_of_int (horizontalAdvanceChar refQt (curvedFont refQt ?c) ch)
                         + (if ch = CHR '' '' then 0 else curvedSpacing refQt ?c))
                (curvedText refQt ?c)) = 132"
    unfolding t s spaced_font by (simp add: refQt_sel)
  have len: "pathLength refQt (curvedPath ?c) = 128"
    by (simp add: spaced_path path_eval)
  have check: "calctotalTextHorizontalAdvance refQt (curvedFont refQt ?c) (curvedText refQt ?c)
        (truncToInt (curvedSpacing refQt ?c)) = 128"
    unfolding t s spaced_font by (rule spaced_advance)
  from t s total len check spaced_kept show ?thesis by blast
qed

text \<open>
  C10 (upper case). The characters of a curved label are those of the resolved text content
  converted to upper case, in its order or, when the text is flipped, in reverse order; and
  when \<^verbatim>\<open>processSingleTileFeature_Point_Curved\<close> appends an entry to the curved-text list, the
  characters of its character vector are exactly these.
\<close>

theorem curved_label_characters_are_upper_case:
  "(curvedChars qt c
      = toUpper qt (getTextContent qt (cv_layerStyle c)
                      (AbstractLayerFeature.truncate (cv_feature c)) (cv_mapZoom c) (cv_vpZoom c))
    \<or> curvedChars qt c
      = rev (toUpper qt (getTextContent qt (cv_layerStyle c)
                      (AbstractLayerFeature.truncate (cv_feature c)) (cv_mapZoom c) (cv_vpZoom c))))
   \<and> (\<forall>rects' list'.
        processSingleTileFeature_Point_Curved qt c tileSize tileOriginX tileOriginY
          (rects, vpCurvedTextList) = (rects', list')
        \<longrightarrow> list' = vpCurvedTextList
            \<or> (\<exists>e. list' = vpCurvedTextList @ [e]
                    \<and> map sc_character (ct_textList e) = curvedChars qt c))"
proof (intro conjI allI impI)
  show "curvedChars qt c
      = toUpper qt (getTextContent qt (cv_layerStyle c)
                      (AbstractLayerFeature.truncate (cv_feature c)) (cv_mapZoom c) (cv_vpZoom c))
    \<or> curvedChars qt c
      = rev (toUpper qt (getTextContent qt (cv_layerStyle c)
                      (AbstractLayerFeature.truncate (cv_feature c)) (cv_mapZoom c) (cv_vpZoom c)))"
    by (simp add: curvedChars_def curvedText_def)
next
  fix rects' list'
  assume res: "processSingleTileFeature_Point_Curved qt c tileSize tileOriginX tileOriginY
          (rects, vpCurvedTextList) = (rects', list')"
  show "list' = vpCurvedTextList
            \<or> (\<exists>e. list' = vpCurvedTextList @ [e]
                    \<and> map sc_character (ct_textList e) = curvedChars qt c)"
  proof (cases "curvedText qt c")
    case Nil
    with res show ?thesis by (simp add: curved_unfold)
  next
    case (Cons a as)
    from res show ?thesis
      unfolding curved_unfold Cons list.case
      by (auto split: if_splits option.splits dest!: placeCharacters_characters)
  qed
qed


lemma storgata_content:
  "toUpper refQt (getTextContent refQt (cv_layerStyle (namedLine ''Storgata'' pts))
      (AbstractLayerFeature.truncate (cv_feature (namedLine ''Storgata'' pts)))
      (cv_mapZoom (namedLine ''Storgata'' pts)) (cv_vpZoom (namedLine ''Storgata'' pts)))
   = ''STORGATA''"
  using storgata_text [of pts] by (simp only: curvedText_def)

text \<open>
  The label of the line feature named \<open>Storgata\<close> on a straight path of 200 pixels is kept;
  its characters read \<open>STORGATA\<close>.
\<close>

theorem curved_label_characters_are_upper_case_witness:
  "toUpper refQt (getTextContent refQt (cv_layerStyle (namedLine ''Storgata'' [(0, 0), (200, 0)]))
      (AbstractLayerFeature.truncate (cv_feature (namedLine ''Storgata'' [(0, 0), (200, 0)])))
      (cv_mapZoom (namedLine ''Storgata'' [(0, 0), (200, 0)]))
      (cv_vpZoom (namedLine ''Storgata'' [(0, 0), (200, 0)])))
   = ''STORGATA''
   \<and> curvedChars refQt (namedLine ''Storgata'' [(0, 0), (200, 0)]) = ''STORGATA''
   \<and> length (snd (processSingleTileFeature_Point_Curved refQt
                     (namedLine ''Storgata'' [(0, 0), (200, 0)]) 256 0 0 ([], []))) = 1
   \<and> map sc_character
        (ct_textList (hd (snd (processSingleTileFeature_Point_Curved refQt
                     (namedLine ''Storgata'' [(0, 0), (200, 0)]) 256 0 0 ([], [])))))
      = ''STORGATA''"
proof -
  let ?c = "namedLine ''Storgata'' [(0, 0), (200, 0)]"
  obtain rects' list' where res:
    "processSingleTileFeature_Point_Curved refQt ?c 256 0 0 ([], []) = (rects', list')"
    by (cases "processSingleTileFeature_Point_Curved refQt ?c 256 0 0 ([], [])")
  have one: "length list' = 1"
    using res unfolding storgata_kept by auto
  from curved_label_characters_are_upper_case [of refQt ?c 256 0 0 "[]" "[]"] res
  have "list' = [] \<or> (\<exists>e. list' = [] @ [e]
                    \<and> map sc_character (ct_textList e) = curvedChars refQt ?c)"
    by blast
  with one have chars: "map sc_character (ct_textList (hd list')) = curvedChars refQt ?c"
    by auto
  have cc: "curvedChars refQt ?c = ''STORGATA''"
    by (simp add: curvedChars_def straight_flip storgata_text)
  from storgata_content [of "[(0, 0), (200, 0)]"] cc one chars res
  show ?thesis by simp
qed

section \<open>Properties of the polygon fill\<close>

text \<open>Mapping through a scaled transform is scaling the point and mapping it.\<close>

lemma QTransform_mapF_scale:
  "QTransform_mapF (QTransform_scale sx sy t) p = QTransform_mapF t (sx * fst p, sy * snd p)"
  by (simp add: QTransform_mapF_def QTransform_scale_def algebra_simps)

lemma QTransform_mapPath_scale:
  "QTransform_mapPath (QTransform_scale (1 / 4096) (1 / 4096) t) path
   = map (\<lambda>(e, q). (e, QTransform_mapF t (fst q / 4096, snd q / 4096))) path"
  by (simp add: QTransform_mapPath_def QTransform_mapF_scale)

text \<open>
  C4 (polygon fill). \<^verbatim>\<open>Bach::paintSingleTileFeature_Polygon\<close> sets the brush to the resolved
  fill colour with its alpha set to the resolved fill opacity times its alpha, sets the pen
  to no pen, and draws, with this brush and no pen, the feature's path with every point \<open>q\<close>
  mapped to \<open>transformIn (q / 4096)\<close>: the incoming transform composed with a uniform scale
  of \<open>1/4096\<close>.
\<close>

theorem polygon_is_filled_with_fill_color_and_no_pen:
  "let p = paintSingleTileFeature_Polygon qt d painter;
       colorVariant = getFillColorAtZoom (pg_layerStyle d) (pg_mapZoom d);
       color = toColor qt
                 (if isJsonArray qt colorVariant
                  then resolveExpression qt colorVariant
                         (AbstractLayerFeature.truncate (pg_feature d)) (pg_mapZoom d) (pg_vpZoom d)
                  else colorVariant);
       opacityVariant = getFillOpacityAtZoom (pg_layerStyle d) (pg_mapZoom d);
       opacity = toFloat qt
                   (if isJsonArray qt opacityVariant
                    then resolveExpression qt opacityVariant
                           (AbstractLayerFeature.truncate (pg_feature d)) (pg_mapZoom d) (pg_vpZoom d)
                    else opacityVariant);
       brushColor = setAlphaF qt (opacity * alphaF qt color) color
   in painterBrush p = SolidBrush brushColor
      \<and> painterPen p = NoPen
      \<and> painterDrawn p =
          painterDrawn painter @
            [(map (\<lambda>(e, q). (e, QTransform_mapF (pg_transformIn d) (fst q / 4096, snd q / 4096)))
                (polygon (pg_feature d)),
              SolidBrush brushColor, NoPen)]"
  by (simp add: paintSingleTileFeature_Polygon_def getFillColor_def Let_def
      QTransform_mapPath_scale)

end
